theory Spec2Isabelle
  imports Main "HOL-Library.Sublist"
begin

section \<open>Python strings\<close>

text \<open>
  A Python \<open>str\<close> is modelled as a \<open>string\<close>. ASCII characters are one \<open>char\<close> each; the
  few non-ASCII literals of the two services (their Chinese user-facing texts) are written
  as the bytes of their UTF-8 encoding. \<open>strip\<close>, \<open>upper\<close> and \<open>lower\<close> are Python's on ASCII
  text: the whitespace characters below U+0080 and the letters a-z / A-Z. Bytes above 0x7F
  are neither whitespace nor cased, which is Python's behaviour for CJK text.
\<close>

type_synonym path = string

definition py_isspace :: "char \<Rightarrow> bool" where
  "py_isspace c = (c \<in> set [CHR 0x09, CHR 0x0A, CHR 0x0B, CHR 0x0C, CHR 0x0D,
                              CHR 0x1C, CHR 0x1D, CHR 0x1E, CHR 0x1F, CHR 0x20])"

text \<open>\<open>s.strip()\<close>\<close>

definition py_strip :: "string \<Rightarrow> string" where
  "py_strip s = rev (dropWhile py_isspace (rev (dropWhile py_isspace s)))"

definition upper_char :: "char \<Rightarrow> char" where
  "upper_char c =
     (case map_of (zip ''abcdefghijklmnopqrstuvwxyz'' ''ABCDEFGHIJKLMNOPQRSTUVWXYZ'') c of
        Some u \<Rightarrow> u
      | None \<Rightarrow> c)"

definition lower_char :: "char \<Rightarrow> char" where
  "lower_char c =
     (case map_of (zip ''ABCDEFGHIJKLMNOPQRSTUVWXYZ'' ''abcdefghijklmnopqrstuvwxyz'') c of
        Some l \<Rightarrow> l
      | None \<Rightarrow> c)"

text \<open>\<open>s.upper()\<close> and \<open>s.lower()\<close>\<close>

definition py_upper :: "string \<Rightarrow> string" where
  "py_upper s = map upper_char s"

definition py_lower :: "string \<Rightarrow> string" where
  "py_lower s = map lower_char s"

text \<open>\<open>s.rsplit(sep, 1)\<close> for a one-character separator: split at the last occurrence.\<close>

definition py_rsplit1 :: "char \<Rightarrow> string \<Rightarrow> string list" where
  "py_rsplit1 sep s =
     (if sep \<in> set s
      then [rev (drop 1 (dropWhile (\<lambda>c. c \<noteq> sep) (rev s))),
            rev (takeWhile (\<lambda>c. c \<noteq> sep) (rev s))]
      else [s])"

text \<open>\<open>xs[i]\<close> for \<open>i \<ge> 0\<close>; \<open>None\<close> is Python's IndexError.\<close>

definition py_index :: "'a list \<Rightarrow> nat \<Rightarrow> 'a option" where
  "py_index xs i = (if i < length xs then Some (xs ! i) else None)"

text \<open>\<open>s[-n:]\<close>: the last \<open>n\<close> characters, the whole string when it is shorter.\<close>

definition py_last_chars :: "nat \<Rightarrow> string \<Rightarrow> string" where
  "py_last_chars n s = drop (length s - n) s"

text \<open>\<open>sep.join(xs)\<close>\<close>

fun py_join :: "string \<Rightarrow> string list \<Rightarrow> string" where
  "py_join sep [] = []"
| "py_join sep [x] = x"
| "py_join sep (x # y # ys) = x @ sep @ py_join sep (y # ys)"

section \<open>The literal texts of the two services\<close>

text \<open>dt_app.py line 318: both photo and video must be uploaded (code points U+9700 U+8981 U+540C
  U+65F6 U+4E0A U+4F20 U+548C U+5B57 U+6BB5).\<close>

definition txt_need_photo_video :: string where
  "txt_need_photo_video =
     [CHR 0xE9, CHR 0x9C, CHR 0x80, CHR 0xE8, CHR 0xA6, CHR 0x81, CHR 0xE5, CHR 0x90, CHR 0x8C,
      CHR 0xE6, CHR 0x97, CHR 0xB6, CHR 0xE4, CHR 0xB8, CHR 0x8A, CHR 0xE4, CHR 0xBC, CHR 0xA0] @
     '' photo '' @
     [CHR 0xE5, CHR 0x92, CHR 0x8C] @
     '' video '' @
     [CHR 0xE5, CHR 0xAD, CHR 0x97, CHR 0xE6, CHR 0xAE, CHR 0xB5]"

text \<open>dt_app.py line 324: the file name must not be empty (code points U+6587 U+4EF6 U+540D U+4E0D
  U+80FD U+4E3A U+7A7A).\<close>

definition txt_empty_filename :: string where
  "txt_empty_filename =
     [CHR 0xE6, CHR 0x96, CHR 0x87, CHR 0xE4, CHR 0xBB, CHR 0xB6, CHR 0xE5, CHR 0x90, CHR 0x8D,
      CHR 0xE4, CHR 0xB8, CHR 0x8D, CHR 0xE8, CHR 0x83, CHR 0xBD, CHR 0xE4, CHR 0xB8, CHR 0xBA,
      CHR 0xE7, CHR 0xA9, CHR 0xBA]"

text \<open>dt_app.py line 326: the image extension is not allowed (code points U+56FE U+7247 U+4EC5
  U+652F U+6301).\<close>

definition txt_image_ext :: string where
  "txt_image_ext =
     [CHR 0xE5, CHR 0x9B, CHR 0xBE, CHR 0xE7, CHR 0x89, CHR 0x87, CHR 0xE4, CHR 0xBB, CHR 0x85,
      CHR 0xE6, CHR 0x94, CHR 0xAF, CHR 0xE6, CHR 0x8C, CHR 0x81] @
     '' jpg/jpeg/png/heic/heif/webp''"

text \<open>dt_app.py line 328: the video extension is not allowed (code points U+89C6 U+9891 U+4EC5
  U+652F U+6301).\<close>

definition txt_video_ext :: string where
  "txt_video_ext =
     [CHR 0xE8, CHR 0xA7, CHR 0x86, CHR 0xE9, CHR 0xA2, CHR 0x91, CHR 0xE4, CHR 0xBB, CHR 0x85,
      CHR 0xE6, CHR 0x94, CHR 0xAF, CHR 0xE6, CHR 0x8C, CHR 0x81] @
     '' mp4/mov''"

text \<open>dt_app.py line 343, app.py line 221: required parameters are missing (code points U+7F3A
  U+5C11 U+5FC5 U+586B U+53C2 U+6570 U+FF1A).\<close>

definition txt_missing_params :: string where
  "txt_missing_params =
     [CHR 0xE7, CHR 0xBC, CHR 0xBA, CHR 0xE5, CHR 0xB0, CHR 0x91, CHR 0xE5, CHR 0xBF, CHR 0x85,
      CHR 0xE5, CHR 0xA1, CHR 0xAB, CHR 0xE5, CHR 0x8F, CHR 0x82, CHR 0xE6, CHR 0x95, CHR 0xB0,
      CHR 0xEF, CHR 0xBC, CHR 0x9A]"

text \<open>dt_app.py line 382, app.py line 234: saving the upload failed (code points U+6587 U+4EF6
  U+4FDD U+5B58 U+5931 U+8D25 U+FF1A).\<close>

definition txt_save_failed :: string where
  "txt_save_failed =
     [CHR 0xE6, CHR 0x96, CHR 0x87, CHR 0xE4, CHR 0xBB, CHR 0xB6, CHR 0xE4, CHR 0xBF, CHR 0x9D,
      CHR 0xE5, CHR 0xAD, CHR 0x98, CHR 0xE5, CHR 0xA4, CHR 0xB1, CHR 0xE8, CHR 0xB4, CHR 0xA5,
      CHR 0xEF, CHR 0xBC, CHR 0x9A]"

text \<open>dt_app.py line 393: the image conversion failed (code points U+56FE U+7247 U+683C U+5F0F
  U+8F6C U+6362 U+5931 U+8D25 U+FF1A).\<close>

definition txt_convert_failed :: string where
  "txt_convert_failed =
     [CHR 0xE5, CHR 0x9B, CHR 0xBE, CHR 0xE7, CHR 0x89, CHR 0x87, CHR 0xE6, CHR 0xA0, CHR 0xBC,
      CHR 0xE5, CHR 0xBC, CHR 0x8F, CHR 0xE8, CHR 0xBD, CHR 0xAC, CHR 0xE6, CHR 0x8D, CHR 0xA2,
      CHR 0xE5, CHR 0xA4, CHR 0xB1, CHR 0xE8, CHR 0xB4, CHR 0xA5, CHR 0xEF, CHR 0xBC, CHR 0x9A]"

text \<open>dt_app.py line 131, app.py line 108: the remux failed (code points U+91CD U+5C01 U+88C5
  U+5931 U+8D25 U+FF1A).\<close>

definition txt_remux_failed :: string where
  "txt_remux_failed =
     ''FFmpeg '' @
     [CHR 0xE9, CHR 0x87, CHR 0x8D, CHR 0xE5, CHR 0xB0, CHR 0x81, CHR 0xE8, CHR 0xA3, CHR 0x85,
      CHR 0xE5, CHR 0xA4, CHR 0xB1, CHR 0xE8, CHR 0xB4, CHR 0xA5, CHR 0xEF, CHR 0xBC, CHR 0x9A]"

text \<open>dt_app.py line 413, app.py line 242: the remux timed out (code points U+5904 U+7406 U+8D85
  U+65F6 U+FF08 U+5206 U+949F U+FF09).\<close>

definition txt_remux_timeout :: string where
  "txt_remux_timeout =
     ''FFmpeg '' @
     [CHR 0xE5, CHR 0xA4, CHR 0x84, CHR 0xE7, CHR 0x90, CHR 0x86, CHR 0xE8, CHR 0xB6, CHR 0x85,
      CHR 0xE6, CHR 0x97, CHR 0xB6, CHR 0xEF, CHR 0xBC, CHR 0x88] @
     ''>5 '' @
     [CHR 0xE5, CHR 0x88, CHR 0x86, CHR 0xE9, CHR 0x92, CHR 0x9F, CHR 0xEF, CHR 0xBC, CHR 0x89]"

text \<open>dt_app.py line 425: processing the image failed (code points U+56FE U+7247 U+5904 U+7406
  U+5931 U+8D25 U+FF1A).\<close>

definition txt_image_failed :: string where
  "txt_image_failed =
     [CHR 0xE5, CHR 0x9B, CHR 0xBE, CHR 0xE7, CHR 0x89, CHR 0x87, CHR 0xE5, CHR 0xA4, CHR 0x84,
      CHR 0xE7, CHR 0x90, CHR 0x86, CHR 0xE5, CHR 0xA4, CHR 0xB1, CHR 0xE8, CHR 0xB4, CHR 0xA5,
      CHR 0xEF, CHR 0xBC, CHR 0x9A]"

text \<open>dt_app.py line 283: the image injection failed (code points U+56FE U+7247 U+6CE8 U+5165
  U+5931 U+8D25 U+FF1A).\<close>

definition txt_exif_image_failed :: string where
  "txt_exif_image_failed =
     ''ExifTool '' @
     [CHR 0xE5, CHR 0x9B, CHR 0xBE, CHR 0xE7, CHR 0x89, CHR 0x87, CHR 0xE6, CHR 0xB3, CHR 0xA8,
      CHR 0xE5, CHR 0x85, CHR 0xA5, CHR 0xE5, CHR 0xA4, CHR 0xB1, CHR 0xE8, CHR 0xB4, CHR 0xA5,
      CHR 0xEF, CHR 0xBC, CHR 0x9A]"

text \<open>dt_app.py line 432: processing the video failed (code points U+89C6 U+9891 U+5904 U+7406
  U+5931 U+8D25 U+FF1A).\<close>

definition txt_video_failed :: string where
  "txt_video_failed =
     [CHR 0xE8, CHR 0xA7, CHR 0x86, CHR 0xE9, CHR 0xA2, CHR 0x91, CHR 0xE5, CHR 0xA4, CHR 0x84,
      CHR 0xE7, CHR 0x90, CHR 0x86, CHR 0xE5, CHR 0xA4, CHR 0xB1, CHR 0xE8, CHR 0xB4, CHR 0xA5,
      CHR 0xEF, CHR 0xBC, CHR 0x9A]"

text \<open>dt_app.py line 206: the video injection failed (code points U+89C6 U+9891 U+6CE8 U+5165
  U+5931 U+8D25 U+FF1A).\<close>

definition txt_exif_video_failed :: string where
  "txt_exif_video_failed =
     ''ExifTool '' @
     [CHR 0xE8, CHR 0xA7, CHR 0x86, CHR 0xE9, CHR 0xA2, CHR 0x91, CHR 0xE6, CHR 0xB3, CHR 0xA8,
      CHR 0xE5, CHR 0x85, CHR 0xA5, CHR 0xE5, CHR 0xA4, CHR 0xB1, CHR 0xE8, CHR 0xB4, CHR 0xA5,
      CHR 0xEF, CHR 0xBC, CHR 0x9A]"

text \<open>dt_app.py line 444: writing the archive failed (code points U+6253 U+5305 U+5931 U+8D25
  U+FF1A).\<close>

definition txt_zip_failed :: string where
  "txt_zip_failed =
     ''ZIP '' @
     [CHR 0xE6, CHR 0x89, CHR 0x93, CHR 0xE5, CHR 0x8C, CHR 0x85, CHR 0xE5, CHR 0xA4, CHR 0xB1,
      CHR 0xE8, CHR 0xB4, CHR 0xA5, CHR 0xEF, CHR 0xBC, CHR 0x9A]"

text \<open>dt_app.py line 352: a space and the five characters meaning rear camera (code points U+540E
  U+7F6E U+6444 U+50CF U+5934).\<close>

definition txt_rear_camera :: string where
  "txt_rear_camera =
     '' '' @
     [CHR 0xE5, CHR 0x90, CHR 0x8E, CHR 0xE7, CHR 0xBD, CHR 0xAE, CHR 0xE6, CHR 0x91, CHR 0x84,
      CHR 0xE5, CHR 0x83, CHR 0x8F, CHR 0xE5, CHR 0xA4, CHR 0xB4]"

text \<open>app.py line 207: the file field is missing (code points U+7F3A U+5C11 U+5B57 U+6BB5).\<close>

definition txt_no_file_field :: string where
  "txt_no_file_field =
     [CHR 0xE7, CHR 0xBC, CHR 0xBA, CHR 0xE5, CHR 0xB0, CHR 0x91] @
     '' file '' @
     [CHR 0xE5, CHR 0xAD, CHR 0x97, CHR 0xE6, CHR 0xAE, CHR 0xB5]"

text \<open>app.py line 210: no file was chosen (code points U+672A U+9009 U+62E9 U+6587 U+4EF6).\<close>

definition txt_no_file_chosen :: string where
  "txt_no_file_chosen =
     [CHR 0xE6, CHR 0x9C, CHR 0xAA, CHR 0xE9, CHR 0x80, CHR 0x89, CHR 0xE6, CHR 0x8B, CHR 0xA9,
      CHR 0xE6, CHR 0x96, CHR 0x87, CHR 0xE4, CHR 0xBB, CHR 0xB6]"

text \<open>app.py line 212: only mp4 and mov are supported (code points U+4EC5 U+652F U+6301 U+683C
  U+5F0F).\<close>

definition txt_only_mp4_mov :: string where
  "txt_only_mp4_mov =
     [CHR 0xE4, CHR 0xBB, CHR 0x85, CHR 0xE6, CHR 0x94, CHR 0xAF, CHR 0xE6, CHR 0x8C, CHR 0x81] @
     '' mp4 / mov '' @
     [CHR 0xE6, CHR 0xA0, CHR 0xBC, CHR 0xE5, CHR 0xBC, CHR 0x8F]"

text \<open>app.py line 182: the injection failed (code points U+6CE8 U+5165 U+5931 U+8D25 U+FF1A).\<close>

definition txt_exif_failed :: string where
  "txt_exif_failed =
     ''ExifTool '' @
     [CHR 0xE6, CHR 0xB3, CHR 0xA8, CHR 0xE5, CHR 0x85, CHR 0xA5, CHR 0xE5, CHR 0xA4, CHR 0xB1,
      CHR 0xE8, CHR 0xB4, CHR 0xA5, CHR 0xEF, CHR 0xBC, CHR 0x9A]"

text \<open>app.py line 254: the injection timed out (code points U+5904 U+7406 U+8D85 U+65F6).\<close>

definition txt_exif_timeout :: string where
  "txt_exif_timeout =
     ''ExifTool '' @
     [CHR 0xE5, CHR 0xA4, CHR 0x84, CHR 0xE7, CHR 0x90, CHR 0x86, CHR 0xE8, CHR 0xB6, CHR 0x85,
      CHR 0xE6, CHR 0x97, CHR 0xB6]"

section \<open>Configuration and extension checks\<close>

definition ALLOWED_VIDEO_EXT :: "string set" where
  "ALLOWED_VIDEO_EXT = {''mp4'', ''mov''}"

definition ALLOWED_IMAGE_EXT :: "string set" where
  "ALLOWED_IMAGE_EXT = {''jpg'', ''jpeg'', ''png'', ''heic'', ''heif'', ''webp''}"

definition ALLOWED_EXTENSIONS :: "string set" where
  "ALLOWED_EXTENSIONS = {''mp4'', ''mov''}"

definition CLEANUP_DELAY_SEC :: nat where
  "CLEANUP_DELAY_SEC = 300"

text \<open>
  \<open>"." in filename and filename.rsplit(".", 1)[1].lower() in ALLOWED\<close>. The index cannot
  fail behind the first conjunct; the model gives \<open>False\<close> there.
\<close>

definition allowed_ext :: "string set \<Rightarrow> string \<Rightarrow> bool" where
  "allowed_ext allowed filename =
     (CHR ''.'' \<in> set filename \<and>
      (case py_index (py_rsplit1 (CHR ''.'') filename) 1 of
         Some ext \<Rightarrow> py_lower ext \<in> allowed
       | None \<Rightarrow> False))"

text \<open>dt_app.py, lines 76-81\<close>

definition allowed_video :: "string \<Rightarrow> bool" where
  "allowed_video filename = allowed_ext ALLOWED_VIDEO_EXT filename"

definition allowed_image :: "string \<Rightarrow> bool" where
  "allowed_image filename = allowed_ext ALLOWED_IMAGE_EXT filename"

text \<open>app.py, lines 54-58\<close>

definition allowed_file :: "string \<Rightarrow> bool" where
  "allowed_file filename = allowed_ext ALLOWED_EXTENSIONS filename"

section \<open>The command lines of the external tools\<close>

text \<open>\<open>remux_to_mov\<close>: the same argument list in both services.\<close>

definition remux_cmd :: "path \<Rightarrow> path \<Rightarrow> string list" where
  "remux_cmd src out =
     [''ffmpeg'', ''-y'',
      ''-i'', src,
      ''-map'', ''0'',
      ''-c'', ''copy'',
      ''-ignore_unknown'',
      ''-movflags'', ''+faststart+use_metadata_tags'',
      out]"

text \<open>dt_app.py, line 390: the conversion of a still image that is not a JPEG.\<close>

definition conv_cmd :: "path \<Rightarrow> path \<Rightarrow> string list" where
  "conv_cmd src_photo converted =
     [''ffmpeg'', ''-y'', ''-i'', src_photo, ''-q:v'', ''1'', converted]"

text \<open>dt_app.py, lines 156-201\<close>

definition inject_video_metadata_cmd ::
  "[path, string, string, string, string] \<Rightarrow> string list" where
  "inject_video_metadata_cmd filepath make model date asset_id =
     [''exiftool'',
      ''-overwrite_original'',
      ''-P'',
      ''-QuickTime:HandlerName='',
      ''-QuickTime:VideoHandlerName='',
      ''-QuickTime:AudioHandlerName='',
      ''-QuickTime:Encoder='',
      ''-QuickTime:HandlerName=Core Media Video'',
      ''-QuickTime:VideoHandlerName=Core Media Video'',
      ''-QuickTime:AudioHandlerName=Core Media Audio'',
      ''-QuickTime:Make='' @ make,
      ''-QuickTime:Model='' @ model,
      ''-Keys:Make='' @ make,
      ''-Keys:Model='' @ model,
      ''-UserData:Make='' @ make,
      ''-UserData:Model='' @ model,
      ''-com.apple.quicktime.make='' @ make,
      ''-com.apple.quicktime.model='' @ model,
      ''-QuickTime:CreationDate='' @ date,
      ''-com.apple.quicktime.creationdate='' @ date,
      ''-CreateDate='' @ date,
      ''-DateTimeOriginal='' @ date,
      ''-TrackCreateDate='' @ date,
      ''-MediaCreateDate='' @ date,
      ''-ContentIdentifier='' @ asset_id,
      ''-Keys:ContentIdentifier='' @ asset_id,
      ''-com.apple.quicktime.content.identifier='' @ asset_id,
      ''-Keys:StillImageTime=0'',
      filepath]"

text \<open>dt_app.py, lines 243-278\<close>

definition inject_image_metadata_cmd ::
  "[path, string, string, string, string, string, string, string, string, string, string, string] \<Rightarrow> string list" where
  "inject_image_metadata_cmd filepath make model date asset_id
       aperture focal focal35 iso' lens width height =
     [''exiftool'',
      ''-overwrite_original'',
      ''-P'',
      ''-Make='' @ make,
      ''-Model='' @ model,
      ''-DateTime='' @ date,
      ''-DateTimeOriginal='' @ date,
      ''-CreateDate='' @ date,
      ''-LensModel='' @ lens,
      ''-FNumber='' @ aperture,
      ''-FocalLength='' @ focal,
      ''-FocalLengthIn35mmFormat='' @ focal35,
      ''-ISO='' @ iso',
      ''-ExifImageWidth='' @ width,
      ''-ExifImageHeight='' @ height,
      ''-CustomRendered=6'',
      ''-Apple:ContentIdentifier='' @ asset_id,
      ''-XMP-apple-fi:ContentIdentifier='' @ asset_id,
      ''-XMP:ContentIdentifier='' @ asset_id,
      filepath]"

text \<open>app.py, lines 136-175\<close>

definition inject_metadata_cmd :: "[path, string, string, string] \<Rightarrow> string list" where
  "inject_metadata_cmd filepath make model date =
     [''exiftool'',
      ''-overwrite_original'',
      ''-P'',
      ''-QuickTime:HandlerName='',
      ''-QuickTime:VideoHandlerName='',
      ''-QuickTime:AudioHandlerName='',
      ''-QuickTime:Encoder='',
      ''-QuickTime:HandlerName=Core Media Video'',
      ''-QuickTime:VideoHandlerName=Core Media Video'',
      ''-QuickTime:AudioHandlerName=Core Media Audio'',
      ''-QuickTime:Make='' @ make,
      ''-QuickTime:Model='' @ model,
      ''-Keys:Make='' @ make,
      ''-Keys:Model='' @ model,
      ''-UserData:Make='' @ make,
      ''-UserData:Model='' @ model,
      ''-com.apple.quicktime.make='' @ make,
      ''-com.apple.quicktime.model='' @ model,
      ''-QuickTime:CreationDate='' @ date,
      ''-com.apple.quicktime.creationdate='' @ date,
      ''-CreateDate='' @ date,
      ''-DateTimeOriginal='' @ date,
      ''-TrackCreateDate='' @ date,
      ''-MediaCreateDate='' @ date,
      filepath]"

section \<open>Reading a tag plan off a command line\<close>

text \<open>
  The tag plan of an injection is the part of its command line between the two options
  and the file: one argument \<open>-TAG=VALUE\<close> per entry, applied by the tool from left to
  right. \<open>assignment\<close> splits an argument at its first \<open>=\<close>, as the tool does.
\<close>

definition tag_args :: "string list \<Rightarrow> string list" where
  "tag_args cmd = butlast (drop 3 cmd)"

definition assignment :: "string \<Rightarrow> string \<times> string" where
  "assignment a =
     (takeWhile (\<lambda>c. c \<noteq> CHR ''='') (drop 1 a),
      drop 1 (dropWhile (\<lambda>c. c \<noteq> CHR ''='') a))"

definition plan :: "string list \<Rightarrow> (string \<times> string) list" where
  "plan cmd = map assignment (tag_args cmd)"

text \<open>The value a tag ends up with: its last entry in the plan.\<close>

definition tag_value :: "string list \<Rightarrow> string \<Rightarrow> string option" where
  "tag_value cmd t = map_of (rev (plan cmd)) t"

text \<open>The positions and values of the entries of one tag, in plan order.\<close>

definition entries_of :: "string \<Rightarrow> (string \<times> string) list \<Rightarrow> (nat \<times> string) list" where
  "entries_of t p = map (\<lambda>ia. (fst ia, snd (snd ia))) (filter (\<lambda>ia. fst (snd ia) = t) (enumerate 0 p))"

text \<open>The entries of the given tags, and the plan without them.\<close>

definition only :: "string list \<Rightarrow> (string \<times> string) list \<Rightarrow> (string \<times> string) list" where
  "only ts p = filter (\<lambda>a. fst a \<in> set ts) p"

definition without :: "string list \<Rightarrow> (string \<times> string) list \<Rightarrow> (string \<times> string) list" where
  "without ts p = filter (\<lambda>a. fst a \<notin> set ts) p"

text \<open>
  The handler name the remux tool writes by default (app.py, line 130), and the one it
  writes for an audio track.
\<close>

definition remux_fingerprints :: "string list" where
  "remux_fingerprints = [''VideoHandler'', ''SoundHandler'']"

definition make_tags :: "string list" where
  "make_tags = [''QuickTime:Make'', ''Keys:Make'', ''UserData:Make'', ''com.apple.quicktime.make'']"

definition model_tags :: "string list" where
  "model_tags = [''QuickTime:Model'', ''Keys:Model'', ''UserData:Model'', ''com.apple.quicktime.model'']"

definition date_tags :: "string list" where
  "date_tags = [''QuickTime:CreationDate'', ''com.apple.quicktime.creationdate'', ''CreateDate'',
                ''DateTimeOriginal'', ''TrackCreateDate'', ''MediaCreateDate'']"

definition image_id_tags :: "string list" where
  "image_id_tags = [''Apple:ContentIdentifier'', ''XMP-apple-fi:ContentIdentifier'',
                    ''XMP:ContentIdentifier'']"

definition video_id_tags :: "string list" where
  "video_id_tags = [''ContentIdentifier'', ''Keys:ContentIdentifier'',
                    ''com.apple.quicktime.content.identifier'']"

section \<open>Requests, the environment and the effects of a request\<close>

text \<open>
  A multipart request: \<open>request.files\<close> maps a field name to the file name of the uploaded
  part, \<open>request.form\<close> maps a field name to its text.
\<close>

record request =
  files :: "string \<rightharpoonup> string"
  form :: "string \<rightharpoonup> string"

text \<open>\<open>request.form.get(key, default)\<close>\<close>

definition form_get :: "request \<Rightarrow> string \<Rightarrow> string \<Rightarrow> string" where
  "form_get req key dflt = (case form req key of Some v \<Rightarrow> v | None \<Rightarrow> dflt)"

text \<open>
  What \<open>subprocess.run(cmd, capture_output=True, text=True, timeout=t)\<close> gives: a completed
  process with its return code, stdout and stderr, or the timeout, with the stderr
  captured until the process was killed.
\<close>

datatype proc = Completed int string string | TimedOut string

text \<open>The exceptions of the two services. The timeout carries the command and the limit.\<close>

datatype pyexn =
    RuntimeError string
  | TimeoutExpired "string list" string
  | OSError string
  | FileNotFoundError path
  | IndexError

text \<open>
  Everything a request takes from outside the two source files. \<open>secure_filename\<close> is
  werkzeug's; \<open>save_error\<close>, \<open>copy_error\<close> and \<open>zip_error\<close> say whether writing that path
  fails with an OSError (and its text); \<open>subprocess_run\<close> is the outcome of an external
  command; \<open>leaves_file\<close> says whether an external command, or a write that failed, leaves
  its output file on disk; \<open>reaped\<close> says whether the detached deletion thread of a path
  scheduled with delay 0 has already removed it when the request looks (the index is the
  number of effects so far); \<open>list_repr\<close> is Python's \<open>repr\<close> of a list of strings.
\<close>

record env =
  UPLOAD_DIR :: path
  uuid4_hex :: string
  secure_filename :: "string \<Rightarrow> string"
  save_error :: "path \<Rightarrow> string option"
  copy_error :: "path \<Rightarrow> string option"
  zip_error :: "path \<Rightarrow> string option"
  subprocess_run :: "string list \<Rightarrow> proc"
  leaves_file :: "path \<Rightarrow> bool"
  reaped :: "nat \<Rightarrow> path \<Rightarrow> bool"
  list_repr :: "string list \<Rightarrow> string"

datatype compression = ZIP_STORED | ZIP_DEFLATED

text \<open>
  The effects of a request, in the order of the calls: \<open>save\<close> of an upload, an external
  command, \<open>shutil.copy2\<close>, the archive written (its path, its compression and its entries
  as archive name and source path), and \<open>schedule_delete(*paths, delay)\<close>.
\<close>

datatype event =
    Save path
  | Run "string list"
  | Copy path path
  | Zip path compression "(string \<times> path) list"
  | ScheduleDelete "path list" nat

record world =
  disk :: "path set"
  trace :: "event list"

datatype response =
    Json string nat
  | SendFile path string string
  | Unhandled pyexn

text \<open>
  \<open>Json msg code\<close> is \<open>jsonify({"error": msg}), code\<close>; \<open>SendFile p mimetype name\<close> is the
  attachment, with status 200; an exception no handler of the view catches reaches
  Flask's handler for 500.
\<close>

fun status :: "response \<Rightarrow> nat" where
  "status (Json msg code) = code"
| "status (SendFile p mimetype name) = 200"
| "status (Unhandled x) = 500"

text \<open>\<open>str(e)\<close>\<close>

fun py_str :: "env \<Rightarrow> pyexn \<Rightarrow> string" where
  "py_str e (RuntimeError msg) = msg"
| "py_str e (TimeoutExpired cmd t) =
     ''Command '' @ [CHR 0x27] @ list_repr e cmd @ [CHR 0x27] @ '' timed out after '' @ t @ '' seconds''"
| "py_str e (OSError msg) = msg"
| "py_str e (FileNotFoundError p) = p"
| "py_str e IndexError = ''list index out of range''"

fun runs_of :: "event \<Rightarrow> string list list" where
  "runs_of (Run cmd) = [cmd]"
| "runs_of ev = []"

text \<open>The external commands of a request, in order.\<close>

definition runs :: "world \<Rightarrow> string list list" where
  "runs w = concat (map runs_of (trace w))"

fun due_of :: "event \<Rightarrow> path list" where
  "due_of (ScheduleDelete ps delay) = (if delay = 0 then ps else [])"
| "due_of ev = []"

text \<open>The paths scheduled for deletion with delay 0.\<close>

definition due :: "world \<Rightarrow> path set" where
  "due w = set (concat (map due_of (trace w)))"

fun writes_of :: "event \<Rightarrow> path list" where
  "writes_of (Save p) = [p]"
| "writes_of (Copy src dst) = [dst]"
| "writes_of (Zip p c entries) = [p]"
| "writes_of ev = []"

text \<open>The paths the service itself wrote, or tried to write.\<close>

definition writes :: "world \<Rightarrow> path list" where
  "writes w = concat (map writes_of (trace w))"

fun zips_of :: "event \<Rightarrow> (path \<times> compression \<times> (string \<times> path) list) list" where
  "zips_of (Zip p c entries) = [(p, c, entries)]"
| "zips_of ev = []"

definition zips :: "world \<Rightarrow> (path \<times> compression \<times> (string \<times> path) list) list" where
  "zips w = concat (map zips_of (trace w))"

text \<open>
  \<open>os.path.exists(p)\<close>: the file is on disk and, if a deletion with delay 0 is pending for
  it, that deletion has not run yet.
\<close>

definition path_exists :: "env \<Rightarrow> world \<Rightarrow> path \<Rightarrow> bool" where
  "path_exists e w p = (p \<in> disk w \<and> \<not> (p \<in> due w \<and> reaped e (length (trace w)) p))"

text \<open>
  \<open>schedule_delete\<close> (the same in both services) starts a detached thread and returns; the
  model records the call.
\<close>

definition schedule_delete :: "path list \<Rightarrow> nat \<Rightarrow> world \<Rightarrow> world" where
  "schedule_delete paths delay w = w\<lparr>trace := trace w @ [ScheduleDelete paths delay]\<rparr>"

text \<open>dt_app.py, lines 370-371\<close>

definition cleanup_all :: "env \<Rightarrow> path list \<Rightarrow> world \<Rightarrow> world" where
  "cleanup_all e tmp_files w = schedule_delete [f \<leftarrow> tmp_files. path_exists e w f] 0 w"

text \<open>
  An external command. \<open>out\<close> is the file the command creates, if it creates one; the
  metadata tool rewrites its file in place.
\<close>

definition run :: "[env, string list, path option, world] \<Rightarrow> proc \<times> world" where
  "run e cmd out w =
     (subprocess_run e cmd,
      w\<lparr>trace := trace w @ [Run cmd],
        disk := (case out of
                   Some p \<Rightarrow> if leaves_file e p then insert p (disk w) else disk w
                 | None \<Rightarrow> disk w)\<rparr>)"

text \<open>\<open>file.save(p)\<close>\<close>

definition save_upload :: "env \<Rightarrow> path \<Rightarrow> world \<Rightarrow> (pyexn + unit) \<times> world" where
  "save_upload e p w =
     (case save_error e p of
        None \<Rightarrow> (Inr (), w\<lparr>trace := trace w @ [Save p], disk := insert p (disk w)\<rparr>)
      | Some msg \<Rightarrow>
          (Inl (OSError msg),
           w\<lparr>trace := trace w @ [Save p],
             disk := (if leaves_file e p then insert p (disk w) else disk w)\<rparr>))"

text \<open>\<open>shutil.copy2(src, dst)\<close>\<close>

definition copy2 :: "[env, path, path, world] \<Rightarrow> (pyexn + unit) \<times> world" where
  "copy2 e src dst w =
     (if src \<notin> disk w then (Inl (FileNotFoundError src), w)
      else case copy_error e dst of
        None \<Rightarrow> (Inr (), w\<lparr>trace := trace w @ [Copy src dst], disk := insert dst (disk w)\<rparr>)
      | Some msg \<Rightarrow>
          (Inl (OSError msg),
           w\<lparr>trace := trace w @ [Copy src dst],
             disk := (if leaves_file e dst then insert dst (disk w) else disk w)\<rparr>))"

section \<open>The steps of the two pipelines\<close>

text \<open>
  \<open>remux_to_mov\<close> (dt_app.py lines 106-132, app.py lines 83-111). After a return code of 0
  the function reads the size of the output, which raises if the file is not there.
\<close>

definition remux_to_mov :: "[env, path, path, world] \<Rightarrow> (pyexn + unit) \<times> world" where
  "remux_to_mov e src out w =
     (let cmd = remux_cmd src out;
          (r, w1) = run e cmd (Some out) w
      in case r of
           TimedOut captured \<Rightarrow> (Inl (TimeoutExpired cmd ''300''), w1)
         | Completed returncode out_text stderr \<Rightarrow>
             if returncode \<noteq> 0
             then (let err = py_last_chars 1000 stderr
                   in (Inl (RuntimeError (txt_remux_failed @ py_last_chars 300 err)), w1))
             else if out \<in> disk w1 then (Inr (), w1)
             else (Inl (FileNotFoundError out), w1))"

text \<open>The shape shared by the three injection functions: one run of the metadata tool.\<close>

definition run_exiftool ::
  "[env, string list, string, world] \<Rightarrow> (pyexn + unit) \<times> world" where
  "run_exiftool e cmd failure_text w =
     (let (r, w1) = run e cmd None w
      in case r of
           TimedOut captured \<Rightarrow> (Inl (TimeoutExpired cmd ''60''), w1)
         | Completed returncode out_text stderr \<Rightarrow>
             if returncode \<noteq> 0
             then (Inl (RuntimeError (failure_text @ py_last_chars 200 stderr)), w1)
             else (Inr (), w1))"

text \<open>dt_app.py, lines 138-207\<close>

definition inject_video_metadata ::
  "[env, path, string, string, string, string, world] \<Rightarrow> (pyexn + unit) \<times> world" where
  "inject_video_metadata e filepath make' model date asset_id w =
     run_exiftool e (inject_video_metadata_cmd filepath make' model date asset_id)
       txt_exif_video_failed w"

text \<open>dt_app.py, lines 213-284\<close>

definition inject_image_metadata ::
  "[env, path, string, string, string, string, string, string, string, string, string, string, string, world] \<Rightarrow> (pyexn + unit) \<times> world" where
  "inject_image_metadata e filepath make' model date asset_id
       aperture focal focal35 iso' lens width height w =
     run_exiftool e
       (inject_image_metadata_cmd filepath make' model date asset_id
          aperture focal focal35 iso' lens width height)
       txt_exif_image_failed w"

text \<open>app.py, lines 117-184\<close>

definition inject_metadata ::
  "[env, path, string, string, string, world] \<Rightarrow> (pyexn + unit) \<times> world" where
  "inject_metadata e filepath make' model date w =
     run_exiftool e (inject_metadata_cmd filepath make' model date) txt_exif_failed w"

text \<open>\<open>secure_filename(name).rsplit(".", 1)[1].lower()\<close>; \<open>None\<close> is the IndexError.\<close>

definition secure_ext :: "env \<Rightarrow> string \<Rightarrow> string option" where
  "secure_ext e filename =
     map_option py_lower (py_index (py_rsplit1 (CHR ''.'') (secure_filename e filename)) 1)"

text \<open>\<open>str(UPLOAD_DIR / name)\<close>\<close>

definition upload_path :: "env \<Rightarrow> string \<Rightarrow> path" where
  "upload_path e name = UPLOAD_DIR e @ ''/'' @ name"

text \<open>The names the view \<open>process_live\<close> has bound when its step 3 is done: the four
  required parameters, the seven optional ones, the request id, the extension of the
  secured photo name and the five work paths.\<close>

datatype live = Live
  (make_l: string) (model_l: string) (date_l: string) (asset_id_l: string)
  (aperture_l: string) (focal_l: string) (focal35_l: string) (iso_l: string)
  (lens_l: string) (width_l: string) (height_l: string)
  (uid_l: string) (photo_ext_l: string)
  (src_photo: path) (src_video: path) (out_photo: path) (out_video: path) (out_zip: path)

text \<open>dt_app.py, line 368, and line 388 for the file the conversion writes.\<close>

definition tmp_files0 :: "live \<Rightarrow> path list" where
  "tmp_files0 l = [src_photo l, src_video l, out_photo l, out_video l, out_zip l]"

definition converted_path :: "env \<Rightarrow> live \<Rightarrow> path" where
  "converted_path e l = upload_path e (''conv_photo_'' @ uid_l l @ ''.jpg'')"

text \<open>Step 5, the \<open>finally\<close> clause (lines 401-403).\<close>

definition finally5 :: "[env, live, path, world] \<Rightarrow> world" where
  "finally5 e l current_photo w =
     (if current_photo \<noteq> out_photo l \<and> path_exists e w current_photo
      then schedule_delete [current_photo] 0 w
      else w)"

text \<open>
  Step 5, line 397 with the \<open>finally\<close> clause: the copy raises nothing the \<open>except\<close> clause
  catches. The result is the final response, or the list \<open>tmp_files\<close> to go on with.
\<close>

definition copy_photo ::
  "[env, live, path, path list, world] \<Rightarrow> (response + path list) \<times> world" where
  "copy_photo e l current_photo tmp_files w =
     (case copy2 e current_photo (out_photo l) w of
        (Inl x, w1) \<Rightarrow> (Inl (Unhandled x), finally5 e l current_photo w1)
      | (Inr u, w1) \<Rightarrow> (Inr tmp_files, finally5 e l current_photo w1))"

text \<open>Step 5 (lines 384-403).\<close>

definition step5_photo :: "env \<Rightarrow> live \<Rightarrow> world \<Rightarrow> (response + path list) \<times> world" where
  "step5_photo e l w =
     (if photo_ext_l l \<notin> {''jpg'', ''jpeg''}
      then (let converted = converted_path e l;
                tmp_files = tmp_files0 l @ [converted];
                cmd = conv_cmd (src_photo l) converted;
                (r, w1) = run e cmd (Some converted) w
            in case r of
                 TimedOut captured \<Rightarrow>
                   (Inl (Unhandled (TimeoutExpired cmd ''60'')), finally5 e l (src_photo l) w1)
               | Completed returncode out_text stderr \<Rightarrow>
                   if returncode \<noteq> 0
                   then (Inl (Json (txt_convert_failed @ py_last_chars 200 stderr) 500),
                         finally5 e l (src_photo l) (cleanup_all e tmp_files w1))
                   else copy_photo e l converted tmp_files
                          (schedule_delete [src_photo l] 0 w1))
      else copy_photo e l (src_photo l) (tmp_files0 l) w)"

text \<open>Step 6 (lines 405-415); the \<open>finally\<close> clause runs on every path.\<close>

definition step6_remux ::
  "[env, live, path list, world] \<Rightarrow> (response + unit) \<times> world" where
  "step6_remux e l tmp_files w =
     (case remux_to_mov e (src_video l) (out_video l) w of
        (Inl (RuntimeError msg), w1) \<Rightarrow>
          (Inl (Json msg 500), schedule_delete [src_video l] 0 (cleanup_all e tmp_files w1))
      | (Inl (TimeoutExpired cmd t), w1) \<Rightarrow>
          (Inl (Json txt_remux_timeout 500),
           schedule_delete [src_video l] 0 (cleanup_all e tmp_files w1))
      | (Inl x, w1) \<Rightarrow> (Inl (Unhandled x), schedule_delete [src_video l] 0 w1)
      | (Inr u, w1) \<Rightarrow> (Inr (), schedule_delete [src_video l] 0 w1))"

text \<open>
  Steps 7 and 8 (lines 417-432) share their handler:
  \<open>except (RuntimeError, subprocess.TimeoutExpired) as e\<close>.
\<close>

definition inject_handler ::
  "[env, string, path list, (pyexn + unit) \<times> world] \<Rightarrow> (response + unit) \<times> world" where
  "inject_handler e failure_text tmp_files res =
     (case res of
        (Inl (RuntimeError msg), w1) \<Rightarrow>
          (Inl (Json (failure_text @ py_str e (RuntimeError msg)) 500), cleanup_all e tmp_files w1)
      | (Inl (TimeoutExpired cmd t), w1) \<Rightarrow>
          (Inl (Json (failure_text @ py_str e (TimeoutExpired cmd t)) 500),
           cleanup_all e tmp_files w1)
      | (Inl x, w1) \<Rightarrow> (Inl (Unhandled x), w1)
      | (Inr u, w1) \<Rightarrow> (Inr (), w1))"

definition step7_image ::
  "[env, live, path list, world] \<Rightarrow> (response + unit) \<times> world" where
  "step7_image e l tmp_files w =
     inject_handler e txt_image_failed tmp_files
       (inject_image_metadata e (out_photo l) (make_l l) (model_l l) (date_l l) (asset_id_l l)
          (aperture_l l) (focal_l l) (focal35_l l) (iso_l l) (lens_l l) (width_l l) (height_l l) w)"

definition step8_video ::
  "[env, live, path list, world] \<Rightarrow> (response + unit) \<times> world" where
  "step8_video e l tmp_files w =
     inject_handler e txt_video_failed tmp_files
       (inject_video_metadata e (out_video l) (make_l l) (model_l l) (date_l l) (asset_id_l l) w)"

text \<open>
  Steps 9 to 11 (lines 434-459): the archive, the two deletions registered with
  \<open>after_this_request\<close>, and the attachment.
\<close>

definition step9_package :: "[env, live, path list, world] \<Rightarrow> response \<times> world" where
  "step9_package e l tmp_files w =
     (let ev = Zip (out_zip l) ZIP_STORED
                 [(''IMG_LIVE.JPG'', out_photo l), (''IMG_LIVE.MOV'', out_video l)]
      in case zip_error e (out_zip l) of
           Some msg \<Rightarrow>
             (Json (txt_zip_failed @ msg) 500,
              cleanup_all e tmp_files
                (w\<lparr>trace := trace w @ [ev],
                   disk := (if leaves_file e (out_zip l) then insert (out_zip l) (disk w)
                            else disk w)\<rparr>))
         | None \<Rightarrow>
             (SendFile (out_zip l) ''application/zip''
                (''LivePhoto_'' @ take 8 (uid_l l) @ ''.zip''),
              schedule_delete [out_zip l] CLEANUP_DELAY_SEC
                (schedule_delete [out_photo l, out_video l] 0
                   (w\<lparr>trace := trace w @ [ev], disk := insert (out_zip l) (disk w)\<rparr>))))"

text \<open>Step 4 (lines 373-382).\<close>

definition step4_save :: "env \<Rightarrow> live \<Rightarrow> world \<Rightarrow> (response + unit) \<times> world" where
  "step4_save e l w =
     (case save_upload e (src_photo l) w of
        (Inl x, w1) \<Rightarrow>
          (Inl (Json (txt_save_failed @ py_str e x) 500), cleanup_all e (tmp_files0 l) w1)
      | (Inr u, w1) \<Rightarrow>
          (case save_upload e (src_video l) w1 of
             (Inl x, w2) \<Rightarrow>
               (Inl (Json (txt_save_failed @ py_str e x) 500), cleanup_all e (tmp_files0 l) w2)
           | (Inr u', w2) \<Rightarrow> (Inr (), w2)))"

text \<open>Steps 4 to 11 in sequence; the first step that answers ends the request.\<close>

definition live_pipeline :: "env \<Rightarrow> live \<Rightarrow> world \<Rightarrow> response \<times> world" where
  "live_pipeline e l w =
     (case step4_save e l w of
        (Inl resp, w4) \<Rightarrow> (resp, w4)
      | (Inr u4, w4) \<Rightarrow>
     (case step5_photo e l w4 of
        (Inl resp, w5) \<Rightarrow> (resp, w5)
      | (Inr tmp_files, w5) \<Rightarrow>
     (case step6_remux e l tmp_files w5 of
        (Inl resp, w6) \<Rightarrow> (resp, w6)
      | (Inr u6, w6) \<Rightarrow>
     (case step7_image e l tmp_files w6 of
        (Inl resp, w7) \<Rightarrow> (resp, w7)
      | (Inr u7, w7) \<Rightarrow>
     (case step8_video e l tmp_files w7 of
        (Inl resp, w8) \<Rightarrow> (resp, w8)
      | (Inr u8, w8) \<Rightarrow> step9_package e l tmp_files w8)))))"

text \<open>The pairs of line 338 whose value is empty, by key, in the order of the dict.\<close>

definition missing_params :: "(string \<times> string) list \<Rightarrow> string list" where
  "missing_params kvs = [fst kv. kv \<leftarrow> kvs, snd kv = []]"

text \<open>
  Lines 347-368: the optional parameters and the work paths. \<open>None\<close> is the IndexError of
  line 359 or 360, raised when the secured file name has no dot left.
\<close>

definition live_locals ::
  "[env, request, string, string, string, string, string, string] \<Rightarrow> live option" where
  "live_locals e req photo_filename video_filename make' model date asset_id =
     (let aperture = py_strip (form_get req ''aperture'' ''1.78'');
          focal = py_strip (form_get req ''focal'' ''24'');
          focal35 = py_strip (form_get req ''focal35'' ''24'');
          iso' = py_strip (form_get req ''iso'' ''100'');
          lens = py_strip (form_get req ''lens'' (model @ txt_rear_camera));
          width = py_strip (form_get req ''width'' ''4032'');
          height = py_strip (form_get req ''height'' ''3024'');
          uid = uuid4_hex e
      in case secure_ext e photo_filename of
           None \<Rightarrow> None
         | Some photo_ext \<Rightarrow>
        (case secure_ext e video_filename of
           None \<Rightarrow> None
         | Some video_ext \<Rightarrow>
             Some (Live make' model date asset_id
                     aperture focal focal35 iso' lens width height
                     uid photo_ext
                     (upload_path e (''src_photo_'' @ uid @ ''.'' @ photo_ext))
                     (upload_path e (''src_video_'' @ uid @ ''.'' @ video_ext))
                     (upload_path e (''out_photo_'' @ uid @ ''.jpg''))
                     (upload_path e (''out_video_'' @ uid @ ''.mov''))
                     (upload_path e (''live_'' @ uid @ ''.zip'')))))"

text \<open>The world a request starts in: the files already on disk, and no effect yet.\<close>

definition w_init :: "path set \<Rightarrow> world" where
  "w_init d0 = \<lparr>disk = d0, trace = []\<rparr>"

text \<open>
  The view \<open>process_live\<close> (dt_app.py lines 290-459), on a disk holding the files \<open>d0\<close>.
\<close>

definition process_live :: "env \<Rightarrow> request \<Rightarrow> path set \<Rightarrow> response \<times> world" where
  "process_live e req d0 =
     (let w0 = w_init d0
      in case files req ''photo'' of
           None \<Rightarrow> (Json txt_need_photo_video 400, w0)
         | Some photo_filename \<Rightarrow>
        (case files req ''video'' of
           None \<Rightarrow> (Json txt_need_photo_video 400, w0)
         | Some video_filename \<Rightarrow>
             if photo_filename = [] \<or> video_filename = []
             then (Json txt_empty_filename 400, w0)
             else if \<not> allowed_image photo_filename
             then (Json txt_image_ext 400, w0)
             else if \<not> allowed_video video_filename
             then (Json txt_video_ext 400, w0)
             else (let make' = py_strip (form_get req ''make'' '''');
                       model = py_strip (form_get req ''model'' '''');
                       date = py_strip (form_get req ''date'' '''');
                       asset_id = py_upper (py_strip (form_get req ''asset_id'' ''''));
                       missing = missing_params
                         [(''make'', make'), (''model'', model),
                          (''date'', date), (''asset_id'', asset_id)]
                   in if missing \<noteq> []
                      then (Json (txt_missing_params @ py_join '', '' missing) 400, w0)
                      else case live_locals e req photo_filename video_filename
                                  make' model date asset_id of
                             None \<Rightarrow> (Unhandled IndexError, w0)
                           | Some l \<Rightarrow> live_pipeline e l w0)))"

text \<open>The view \<open>process_video\<close> (app.py lines 190-268).\<close>

definition video_pipeline ::
  "[env, path, path, string, string, string, world] \<Rightarrow> response \<times> world" where
  "video_pipeline e src out make' model date w =
     (case save_upload e src w of
        (Inl x, w1) \<Rightarrow> (Json (txt_save_failed @ py_str e x) 500, w1)
      | (Inr u, w1) \<Rightarrow>
     (case remux_to_mov e src out w1 of
        (Inl (RuntimeError msg), w2) \<Rightarrow> (Json msg 500, schedule_delete [src] 0 w2)
      | (Inl (TimeoutExpired cmd t), w2) \<Rightarrow>
          (Json txt_remux_timeout 500, schedule_delete [src] 0 w2)
      | (Inl x, w2) \<Rightarrow> (Unhandled x, schedule_delete [src] 0 w2)
      | (Inr u', w2) \<Rightarrow>
     (case inject_metadata e out make' model date (schedule_delete [src] 0 w2) of
        (Inl (RuntimeError msg), w3) \<Rightarrow> (Json msg 500, schedule_delete [out] 0 w3)
      | (Inl (TimeoutExpired cmd t), w3) \<Rightarrow>
          (Json txt_exif_timeout 500, schedule_delete [out] 0 w3)
      | (Inl x, w3) \<Rightarrow> (Unhandled x, w3)
      | (Inr u'', w3) \<Rightarrow>
          (SendFile out ''video/quicktime'' (''processed_'' @ uuid4_hex e @ ''.mov''),
           schedule_delete [out] CLEANUP_DELAY_SEC w3))))"

definition process_video :: "env \<Rightarrow> request \<Rightarrow> path set \<Rightarrow> response \<times> world" where
  "process_video e req d0 =
     (let w0 = w_init d0
      in case files req ''file'' of
           None \<Rightarrow> (Json txt_no_file_field 400, w0)
         | Some filename \<Rightarrow>
             if filename = [] then (Json txt_no_file_chosen 400, w0)
             else if \<not> allowed_file filename then (Json txt_only_mp4_mov 400, w0)
             else (let make' = py_strip (form_get req ''make'' '''');
                       model = py_strip (form_get req ''model'' '''');
                       date = py_strip (form_get req ''date'' '''');
                       missing = missing_params
                         [(''make'', make'), (''model'', model), (''date'', date)]
                   in if missing \<noteq> []
                      then (Json (txt_missing_params @ py_join '', '' missing) 400, w0)
                      else case secure_ext e filename of
                             None \<Rightarrow> (Unhandled IndexError, w0)
                           | Some src_ext \<Rightarrow>
                               video_pipeline e
                                 (upload_path e (''src_'' @ uuid4_hex e @ ''.'' @ src_ext))
                                 (upload_path e (''out_'' @ uuid4_hex e @ ''.mov''))
                                 make' model date w0))"

section \<open>What a request is observed by\<close>

text \<open>
  The command lines of the two injections of a pairing request, and the commands step 5
  runs: the conversion, unless the image is a JPEG.
\<close>

definition image_cmd_of :: "live \<Rightarrow> string list" where
  "image_cmd_of l =
     inject_image_metadata_cmd (out_photo l) (make_l l) (model_l l) (date_l l) (asset_id_l l)
       (aperture_l l) (focal_l l) (focal35_l l) (iso_l l) (lens_l l) (width_l l) (height_l l)"

definition video_cmd_of :: "live \<Rightarrow> string list" where
  "video_cmd_of l =
     inject_video_metadata_cmd (out_video l) (make_l l) (model_l l) (date_l l) (asset_id_l l)"

definition step5_runs :: "env \<Rightarrow> live \<Rightarrow> string list list" where
  "step5_runs e l =
     (if photo_ext_l l \<notin> {''jpg'', ''jpeg''}
      then [conv_cmd (src_photo l) (converted_path e l)] else [])"

text \<open>The runs of the metadata tool among the external commands of a request.\<close>

definition is_exiftool :: "string list \<Rightarrow> bool" where
  "is_exiftool cmd = (case cmd of [] \<Rightarrow> False | prog # args \<Rightarrow> prog = ''exiftool'')"

definition exif_runs :: "world \<Rightarrow> string list list" where
  "exif_runs w = filter is_exiftool (runs w)"

text \<open>The identifier is the value of every one of the given tags.\<close>

definition identifier_at :: "string list \<Rightarrow> string list \<Rightarrow> string \<Rightarrow> bool" where
  "identifier_at tags cmd ident = (map (tag_value cmd) tags = map (\<lambda>t. Some ident) tags)"

section \<open>Example requests\<close>

text \<open>An environment in which every write and every external command succeeds.\<close>

definition env_ok :: env where
  "env_ok = \<lparr>UPLOAD_DIR = ''/srv/uploads_dt'', uuid4_hex = ''0123456789abcdef0123456789abcdef'',
             secure_filename = (\<lambda>name. name),
             save_error = (\<lambda>p. None), copy_error = (\<lambda>p. None), zip_error = (\<lambda>p. None),
             subprocess_run = (\<lambda>cmd. Completed 0 '''' ''''),
             leaves_file = (\<lambda>p. True), reaped = (\<lambda>n p. False),
             list_repr = (\<lambda>cmd. ''[...]'')\<rparr>"

text \<open>The request of the scenario of the specification, with a JPEG and no optional field.\<close>

definition req_jpg :: request where
  "req_jpg = \<lparr>files = [''photo'' \<mapsto> ''IMG_0001.JPG'', ''video'' \<mapsto> ''IMG_0001.MOV''],
              form = [''make'' \<mapsto> ''Apple'', ''model'' \<mapsto> ''iPhone 17 Pro Max'',
                      ''date'' \<mapsto> ''2026:02:22 12:00:00'',
                      ''asset_id'' \<mapsto> ''  ab12-cd34  '']\<rparr>"

text \<open>
  The optional shot parameters of the pairing form, each with the tag of the image plan
  that receives it.
\<close>

definition shot_fields :: "(string \<times> string) list" where
  "shot_fields =
     [(''aperture'', ''FNumber''), (''focal'', ''FocalLength''),
      (''focal35'', ''FocalLengthIn35mmFormat''), (''iso'', ''ISO''),
      (''lens'', ''LensModel''), (''width'', ''ExifImageWidth''),
      (''height'', ''ExifImageHeight'')]"

text \<open>The request \<open>req_jpg\<close> with an aperture field of three spaces.\<close>

definition req_blank_aperture :: request where
  "req_blank_aperture = req_jpg\<lparr>form := (form req_jpg)(''aperture'' \<mapsto> ''   '')\<rparr>"

section \<open>Requests that fail validation\<close>

text \<open>
  A pairing request that misses a file field, carries a file whose extension is not
  allowed, or misses a required parameter (empty once trimmed).
\<close>

definition live_invalid :: "request \<Rightarrow> bool" where
  "live_invalid req =
     (case files req ''photo'' of
        None \<Rightarrow> True
      | Some photo_filename \<Rightarrow>
     (case files req ''video'' of
        None \<Rightarrow> True
      | Some video_filename \<Rightarrow>
          \<not> allowed_image photo_filename \<or> \<not> allowed_video video_filename \<or>
          py_strip (form_get req ''make'' '''') = [] \<or>
          py_strip (form_get req ''model'' '''') = [] \<or>
          py_strip (form_get req ''date'' '''') = [] \<or>
          py_strip (form_get req ''asset_id'' '''') = []))"

text \<open>The same for a request to the video-only service.\<close>

definition video_invalid :: "request \<Rightarrow> bool" where
  "video_invalid req =
     (case files req ''file'' of
        None \<Rightarrow> True
      | Some filename \<Rightarrow>
          \<not> allowed_file filename \<or>
          py_strip (form_get req ''make'' '''') = [] \<or>
          py_strip (form_get req ''model'' '''') = [] \<or>
          py_strip (form_get req ''date'' '''') = [])"

text \<open>A pairing request without its video, and a video-only request without a date.\<close>

definition req_no_video :: request where
  "req_no_video = req_jpg\<lparr>files := [''photo'' \<mapsto> ''IMG_0001.JPG'']\<rparr>"

definition req_video_no_date :: request where
  "req_video_no_date =
     \<lparr>files = [''file'' \<mapsto> ''clip.mp4''],
      form = [''make'' \<mapsto> ''Apple'', ''model'' \<mapsto> ''iPhone 17 Pro Max'', ''date'' \<mapsto> ''  '']\<rparr>"

text \<open>A video-only request whose file name has no dot.\<close>

definition req_video_no_dot :: request where
  "req_video_no_dot =
     \<lparr>files = [''file'' \<mapsto> ''clip''],
      form = [''make'' \<mapsto> ''Apple'', ''model'' \<mapsto> ''iPhone 17 Pro Max'',
              ''date'' \<mapsto> ''2026:02:22 12:00:00'']\<rparr>"

text \<open>A pairing request whose video file name has no dot.\<close>

definition req_live_no_dot :: request where
  "req_live_no_dot = req_jpg\<lparr>files := [''photo'' \<mapsto> ''IMG_0001.JPG'', ''video'' \<mapsto> ''clip'']\<rparr>"

section \<open>Failures of the external tools\<close>

text \<open>An external command failed: a return code other than 0, or the timeout.\<close>

definition failed :: "proc \<Rightarrow> bool" where
  "failed p = (case p of Completed returncode out_text stderr \<Rightarrow> returncode \<noteq> 0 | TimedOut captured \<Rightarrow> True)"

text \<open>The command is a remux of some source into some output.\<close>

definition is_remux :: "string list \<Rightarrow> bool" where
  "is_remux cmd = (length cmd = 12 \<and> cmd = remux_cmd (cmd ! 3) (cmd ! 11))"

text \<open>The message of the response when the remux failed (both services).\<close>

definition remux_failure :: "proc \<Rightarrow> string" where
  "remux_failure p =
     (case p of
        Completed returncode out_text stderr \<Rightarrow> txt_remux_failed @ py_last_chars 300 stderr
      | TimedOut captured \<Rightarrow> txt_remux_timeout)"

text \<open>
  The text of the exception when an injection of the pairing service failed; the view
  puts the text of its step in front of it.
\<close>

definition injection_failure :: "env \<Rightarrow> string \<Rightarrow> string list \<Rightarrow> proc \<Rightarrow> string" where
  "injection_failure e failure_text cmd p =
     (case p of
        Completed returncode out_text stderr \<Rightarrow> failure_text @ py_last_chars 200 stderr
      | TimedOut captured \<Rightarrow> py_str e (TimeoutExpired cmd ''60''))"

text \<open>The message of the response when the injection of the video-only service failed.\<close>

definition video_injection_failure :: "proc \<Rightarrow> string" where
  "video_injection_failure p =
     (case p of
        Completed returncode out_text stderr \<Rightarrow> txt_exif_failed @ py_last_chars 200 stderr
      | TimedOut captured \<Rightarrow> txt_exif_timeout)"

text \<open>The request \<open>req_jpg\<close> with a PNG image.\<close>

definition req_png :: request where
  "req_png = req_jpg\<lparr>files := [''photo'' \<mapsto> ''IMG_0001.PNG'', ''video'' \<mapsto> ''IMG_0001.MOV'']\<rparr>"

text \<open>A request to the video-only service.\<close>

definition req_video :: request where
  "req_video =
     \<lparr>files = [''file'' \<mapsto> ''clip.mp4''],
      form = [''make'' \<mapsto> ''Apple'', ''model'' \<mapsto> ''iPhone 17 Pro Max'',
              ''date'' \<mapsto> ''2026:02:22 12:00:00'']\<rparr>"

text \<open>
  Two environments in which the remux fails and every other command succeeds: in the
  first the remux returns 1, in the second it runs into the timeout. Both leave the
  partly written output on disk.
\<close>

definition env_remux_fails :: env where
  "env_remux_fails =
     env_ok\<lparr>subprocess_run :=
       (\<lambda>cmd. if is_remux cmd then Completed 1 '''' ''moov atom not found''
              else Completed 0 '''' '''')\<rparr>"

definition env_remux_timeout :: env where
  "env_remux_timeout =
     env_ok\<lparr>subprocess_run :=
       (\<lambda>cmd. if is_remux cmd then TimedOut ''frame= 7200 fps= 24''
              else Completed 0 '''' '''')\<rparr>"

text \<open>The command is the conversion of some image.\<close>

definition is_conv :: "string list \<Rightarrow> bool" where
  "is_conv cmd = (length cmd = 7 \<and> cmd = conv_cmd (cmd ! 3) (cmd ! 6))"

text \<open>An environment in which the conversion runs into the timeout.\<close>

definition env_conv_timeout :: env where
  "env_conv_timeout =
     env_ok\<lparr>subprocess_run :=
       (\<lambda>cmd. if is_conv cmd then TimedOut '''' else Completed 0 '''' '''')\<rparr>"

section \<open>The tag plans\<close>

lemma plan_video:
  "plan (inject_video_metadata_cmd fp mk md dt aid) =
     [(''QuickTime:HandlerName'', ''''), (''QuickTime:VideoHandlerName'', ''''),
      (''QuickTime:AudioHandlerName'', ''''), (''QuickTime:Encoder'', ''''),
      (''QuickTime:HandlerName'', ''Core Media Video''),
      (''QuickTime:VideoHandlerName'', ''Core Media Video''),
      (''QuickTime:AudioHandlerName'', ''Core Media Audio''),
      (''QuickTime:Make'', mk), (''QuickTime:Model'', md),
      (''Keys:Make'', mk), (''Keys:Model'', md),
      (''UserData:Make'', mk), (''UserData:Model'', md),
      (''com.apple.quicktime.make'', mk), (''com.apple.quicktime.model'', md),
      (''QuickTime:CreationDate'', dt), (''com.apple.quicktime.creationdate'', dt),
      (''CreateDate'', dt), (''DateTimeOriginal'', dt),
      (''TrackCreateDate'', dt), (''MediaCreateDate'', dt),
      (''ContentIdentifier'', aid), (''Keys:ContentIdentifier'', aid),
      (''com.apple.quicktime.content.identifier'', aid),
      (''Keys:StillImageTime'', ''0'')]"
  by (simp add: plan_def tag_args_def inject_video_metadata_cmd_def assignment_def)

lemma plan_video_only:
  "plan (inject_metadata_cmd fp mk md dt) =
     [(''QuickTime:HandlerName'', ''''), (''QuickTime:VideoHandlerName'', ''''),
      (''QuickTime:AudioHandlerName'', ''''), (''QuickTime:Encoder'', ''''),
      (''QuickTime:HandlerName'', ''Core Media Video''),
      (''QuickTime:VideoHandlerName'', ''Core Media Video''),
      (''QuickTime:AudioHandlerName'', ''Core Media Audio''),
      (''QuickTime:Make'', mk), (''QuickTime:Model'', md),
      (''Keys:Make'', mk), (''Keys:Model'', md),
      (''UserData:Make'', mk), (''UserData:Model'', md),
      (''com.apple.quicktime.make'', mk), (''com.apple.quicktime.model'', md),
      (''QuickTime:CreationDate'', dt), (''com.apple.quicktime.creationdate'', dt),
      (''CreateDate'', dt), (''DateTimeOriginal'', dt),
      (''TrackCreateDate'', dt), (''MediaCreateDate'', dt)]"
  by (simp add: plan_def tag_args_def inject_metadata_cmd_def assignment_def)

lemma plan_image:
  "plan (inject_image_metadata_cmd fp mk md dt aid ap fo f35 i le wi he) =
     [(''Make'', mk), (''Model'', md), (''DateTime'', dt), (''DateTimeOriginal'', dt),
      (''CreateDate'', dt), (''LensModel'', le), (''FNumber'', ap), (''FocalLength'', fo),
      (''FocalLengthIn35mmFormat'', f35), (''ISO'', i), (''ExifImageWidth'', wi),
      (''ExifImageHeight'', he), (''CustomRendered'', ''6''),
      (''Apple:ContentIdentifier'', aid), (''XMP-apple-fi:ContentIdentifier'', aid),
      (''XMP:ContentIdentifier'', aid)]"
  by (simp add: plan_def tag_args_def inject_image_metadata_cmd_def assignment_def)

lemma tag_counts:
  "distinct make_tags \<and> length make_tags = 4 \<and>
   distinct model_tags \<and> length model_tags = 4 \<and>
   distinct date_tags \<and> length date_tags = 6"
  by (simp add: make_tags_def model_tags_def date_tags_def)

lemma live_video_make_model_date:
  "only make_tags (plan (inject_video_metadata_cmd fp mk md dt aid)) =
     [(''QuickTime:Make'', mk), (''Keys:Make'', mk), (''UserData:Make'', mk),
      (''com.apple.quicktime.make'', mk)] \<and>
   only model_tags (plan (inject_video_metadata_cmd fp mk md dt aid)) =
     [(''QuickTime:Model'', md), (''Keys:Model'', md), (''UserData:Model'', md),
      (''com.apple.quicktime.model'', md)] \<and>
   only date_tags (plan (inject_video_metadata_cmd fp mk md dt aid)) =
     [(''QuickTime:CreationDate'', dt), (''com.apple.quicktime.creationdate'', dt),
      (''CreateDate'', dt), (''DateTimeOriginal'', dt), (''TrackCreateDate'', dt),
      (''MediaCreateDate'', dt)]"
  by (simp add: plan_video only_def make_tags_def model_tags_def date_tags_def)

lemma live_video_nowhere_else:
  "without make_tags (plan (inject_video_metadata_cmd fp mk md dt aid)) =
     without make_tags (plan (inject_video_metadata_cmd fp mk' md dt aid)) \<and>
   without model_tags (plan (inject_video_metadata_cmd fp mk md dt aid)) =
     without model_tags (plan (inject_video_metadata_cmd fp mk md' dt aid)) \<and>
   without date_tags (plan (inject_video_metadata_cmd fp mk md dt aid)) =
     without date_tags (plan (inject_video_metadata_cmd fp mk md dt' aid))"
  by (simp add: plan_video without_def make_tags_def model_tags_def date_tags_def)

lemma video_only_make_model_date:
  "only make_tags (plan (inject_metadata_cmd fp mk md dt)) =
     [(''QuickTime:Make'', mk), (''Keys:Make'', mk), (''UserData:Make'', mk),
      (''com.apple.quicktime.make'', mk)] \<and>
   only model_tags (plan (inject_metadata_cmd fp mk md dt)) =
     [(''QuickTime:Model'', md), (''Keys:Model'', md), (''UserData:Model'', md),
      (''com.apple.quicktime.model'', md)] \<and>
   only date_tags (plan (inject_metadata_cmd fp mk md dt)) =
     [(''QuickTime:CreationDate'', dt), (''com.apple.quicktime.creationdate'', dt),
      (''CreateDate'', dt), (''DateTimeOriginal'', dt), (''TrackCreateDate'', dt),
      (''MediaCreateDate'', dt)]"
  by (simp add: plan_video_only only_def make_tags_def model_tags_def date_tags_def)

lemma video_only_nowhere_else:
  "without make_tags (plan (inject_metadata_cmd fp mk md dt)) =
     without make_tags (plan (inject_metadata_cmd fp mk' md dt)) \<and>
   without model_tags (plan (inject_metadata_cmd fp mk md dt)) =
     without model_tags (plan (inject_metadata_cmd fp mk md' dt)) \<and>
   without date_tags (plan (inject_metadata_cmd fp mk md dt)) =
     without date_tags (plan (inject_metadata_cmd fp mk md dt'))"
  by (simp add: plan_video_only without_def make_tags_def model_tags_def date_tags_def)

text \<open>
  C2. In the video plan of the pairing service and in the plan of the video-only service,
  the entries of the four Make tags (QuickTime, Keys, UserData and the flat
  com.apple.quicktime field) all carry the caller's make, those of the four Model tags
  the caller's model, and those of the six date tags (QuickTime:CreationDate,
  com.apple.quicktime.creationdate, CreateDate, DateTimeOriginal, TrackCreateDate,
  MediaCreateDate) the caller's date. The tags of each group are distinct, four, four and
  six in number, and exactly these entries carry the value: the rest of the plan is the
  same whatever the make (the model, the date) is.
\<close>

theorem make_model_date_redundancy:
  "(distinct make_tags \<and> length make_tags = 4 \<and>
    distinct model_tags \<and> length model_tags = 4 \<and>
    distinct date_tags \<and> length date_tags = 6) \<and>
   (only make_tags (plan (inject_video_metadata_cmd fp mk md dt aid)) =
      [(''QuickTime:Make'', mk), (''Keys:Make'', mk), (''UserData:Make'', mk),
       (''com.apple.quicktime.make'', mk)] \<and>
    only model_tags (plan (inject_video_metadata_cmd fp mk md dt aid)) =
      [(''QuickTime:Model'', md), (''Keys:Model'', md), (''UserData:Model'', md),
       (''com.apple.quicktime.model'', md)] \<and>
    only date_tags (plan (inject_video_metadata_cmd fp mk md dt aid)) =
      [(''QuickTime:CreationDate'', dt), (''com.apple.quicktime.creationdate'', dt),
       (''CreateDate'', dt), (''DateTimeOriginal'', dt), (''TrackCreateDate'', dt),
       (''MediaCreateDate'', dt)]) \<and>
   (without make_tags (plan (inject_video_metadata_cmd fp mk md dt aid)) =
      without make_tags (plan (inject_video_metadata_cmd fp mk' md dt aid)) \<and>
    without model_tags (plan (inject_video_metadata_cmd fp mk md dt aid)) =
      without model_tags (plan (inject_video_metadata_cmd fp mk md' dt aid)) \<and>
    without date_tags (plan (inject_video_metadata_cmd fp mk md dt aid)) =
      without date_tags (plan (inject_video_metadata_cmd fp mk md dt' aid))) \<and>
   (only make_tags (plan (inject_metadata_cmd fp mk md dt)) =
      [(''QuickTime:Make'', mk), (''Keys:Make'', mk), (''UserData:Make'', mk),
       (''com.apple.quicktime.make'', mk)] \<and>
    only model_tags (plan (inject_metadata_cmd fp mk md dt)) =
      [(''QuickTime:Model'', md), (''Keys:Model'', md), (''UserData:Model'', md),
       (''com.apple.quicktime.model'', md)] \<and>
    only date_tags (plan (inject_metadata_cmd fp mk md dt)) =
      [(''QuickTime:CreationDate'', dt), (''com.apple.quicktime.creationdate'', dt),
       (''CreateDate'', dt), (''DateTimeOriginal'', dt), (''TrackCreateDate'', dt),
       (''MediaCreateDate'', dt)]) \<and>
   (without make_tags (plan (inject_metadata_cmd fp mk md dt)) =
      without make_tags (plan (inject_metadata_cmd fp mk' md dt)) \<and>
    without model_tags (plan (inject_metadata_cmd fp mk md dt)) =
      without model_tags (plan (inject_metadata_cmd fp mk md' dt)) \<and>
    without date_tags (plan (inject_metadata_cmd fp mk md dt)) =
      without date_tags (plan (inject_metadata_cmd fp mk md dt')))"
  using tag_counts live_video_make_model_date [of fp mk md dt aid]
    live_video_nowhere_else [of fp mk md dt aid mk' md' dt']
    video_only_make_model_date [of fp mk md dt]
    video_only_nowhere_else [of fp mk md dt mk' md' dt']
  by blast

lemma live_video_handlers:
  "entries_of ''QuickTime:HandlerName'' (plan (inject_video_metadata_cmd fp mk md dt aid)) =
     [(0, ''''), (4, ''Core Media Video'')] \<and>
   entries_of ''QuickTime:VideoHandlerName'' (plan (inject_video_metadata_cmd fp mk md dt aid)) =
     [(1, ''''), (5, ''Core Media Video'')] \<and>
   entries_of ''QuickTime:AudioHandlerName'' (plan (inject_video_metadata_cmd fp mk md dt aid)) =
     [(2, ''''), (6, ''Core Media Audio'')]"
  by (simp add: plan_video entries_of_def enumerate_simps)

lemma video_only_handlers:
  "entries_of ''QuickTime:HandlerName'' (plan (inject_metadata_cmd fp mk md dt)) =
     [(0, ''''), (4, ''Core Media Video'')] \<and>
   entries_of ''QuickTime:VideoHandlerName'' (plan (inject_metadata_cmd fp mk md dt)) =
     [(1, ''''), (5, ''Core Media Video'')] \<and>
   entries_of ''QuickTime:AudioHandlerName'' (plan (inject_metadata_cmd fp mk md dt)) =
     [(2, ''''), (6, ''Core Media Audio'')]"
  by (simp add: plan_video_only entries_of_def enumerate_simps)

lemma live_video_handler_values:
  "tag_value (inject_video_metadata_cmd fp mk md dt aid) ''QuickTime:HandlerName'' =
     Some ''Core Media Video'' \<and>
   tag_value (inject_video_metadata_cmd fp mk md dt aid) ''QuickTime:VideoHandlerName'' =
     Some ''Core Media Video'' \<and>
   tag_value (inject_video_metadata_cmd fp mk md dt aid) ''QuickTime:AudioHandlerName'' =
     Some ''Core Media Audio''"
  by (simp add: tag_value_def plan_video)

lemma video_only_handler_values:
  "tag_value (inject_metadata_cmd fp mk md dt) ''QuickTime:HandlerName'' =
     Some ''Core Media Video'' \<and>
   tag_value (inject_metadata_cmd fp mk md dt) ''QuickTime:VideoHandlerName'' =
     Some ''Core Media Video'' \<and>
   tag_value (inject_metadata_cmd fp mk md dt) ''QuickTime:AudioHandlerName'' =
     Some ''Core Media Audio''"
  by (simp add: tag_value_def plan_video_only)

lemma canonical_not_fingerprint:
  "''Core Media Video'' \<notin> set remux_fingerprints \<and>
   ''Core Media Audio'' \<notin> set remux_fingerprints"
  by (simp add: remux_fingerprints_def)

text \<open>
  C3. In both video plans each of the three handler-name tags has exactly two entries:
  the blanking one, at positions 0, 1 and 2, and after it the canonical one, at positions
  4, 5 and 6. So the value each tag ends up with is Core Media Video (Core Media Audio for
  the audio handler), which is not a default handler name of the remux tool.
\<close>

theorem handler_names_cleansed_then_set:
  "(entries_of ''QuickTime:HandlerName'' (plan (inject_video_metadata_cmd fp mk md dt aid)) =
      [(0, ''''), (4, ''Core Media Video'')] \<and>
    entries_of ''QuickTime:VideoHandlerName'' (plan (inject_video_metadata_cmd fp mk md dt aid)) =
      [(1, ''''), (5, ''Core Media Video'')] \<and>
    entries_of ''QuickTime:AudioHandlerName'' (plan (inject_video_metadata_cmd fp mk md dt aid)) =
      [(2, ''''), (6, ''Core Media Audio'')]) \<and>
   (entries_of ''QuickTime:HandlerName'' (plan (inject_metadata_cmd fp mk md dt)) =
      [(0, ''''), (4, ''Core Media Video'')] \<and>
    entries_of ''QuickTime:VideoHandlerName'' (plan (inject_metadata_cmd fp mk md dt)) =
      [(1, ''''), (5, ''Core Media Video'')] \<and>
    entries_of ''QuickTime:AudioHandlerName'' (plan (inject_metadata_cmd fp mk md dt)) =
      [(2, ''''), (6, ''Core Media Audio'')]) \<and>
   (tag_value (inject_video_metadata_cmd fp mk md dt aid) ''QuickTime:HandlerName'' =
      Some ''Core Media Video'' \<and>
    tag_value (inject_video_metadata_cmd fp mk md dt aid) ''QuickTime:VideoHandlerName'' =
      Some ''Core Media Video'' \<and>
    tag_value (inject_video_metadata_cmd fp mk md dt aid) ''QuickTime:AudioHandlerName'' =
      Some ''Core Media Audio'') \<and>
   (tag_value (inject_metadata_cmd fp mk md dt) ''QuickTime:HandlerName'' =
      Some ''Core Media Video'' \<and>
    tag_value (inject_metadata_cmd fp mk md dt) ''QuickTime:VideoHandlerName'' =
      Some ''Core Media Video'' \<and>
    tag_value (inject_metadata_cmd fp mk md dt) ''QuickTime:AudioHandlerName'' =
      Some ''Core Media Audio'') \<and>
   (''Core Media Video'' \<notin> set remux_fingerprints \<and>
    ''Core Media Audio'' \<notin> set remux_fingerprints)"
  using live_video_handlers [of fp mk md dt aid] video_only_handlers [of fp mk md dt]
    live_video_handler_values [of fp mk md dt aid] video_only_handler_values [of fp mk md dt]
    canonical_not_fingerprint
  by blast

section \<open>The effects of the steps\<close>

lemma disk_update_obs [simp]:
  "runs (w\<lparr>disk := d\<rparr>) = runs w"
  "writes (w\<lparr>disk := d\<rparr>) = writes w"
  "zips (w\<lparr>disk := d\<rparr>) = zips w"
  "due (w\<lparr>disk := d\<rparr>) = due w"
  by (simp_all add: runs_def writes_def zips_def due_def)

lemma trace_update_obs [simp]:
  "runs (w\<lparr>trace := trace w @ [ev]\<rparr>) = runs w @ runs_of ev"
  "writes (w\<lparr>trace := trace w @ [ev]\<rparr>) = writes w @ writes_of ev"
  "zips (w\<lparr>trace := trace w @ [ev]\<rparr>) = zips w @ zips_of ev"
  "due (w\<lparr>trace := trace w @ [ev]\<rparr>) = due w \<union> set (due_of ev)"
  by (simp_all add: runs_def writes_def zips_def due_def)

lemma schedule_delete_obs [simp]:
  "runs (schedule_delete ps d w) = runs w"
  "disk (schedule_delete ps d w) = disk w"
  "writes (schedule_delete ps d w) = writes w"
  "zips (schedule_delete ps d w) = zips w"
  "due (schedule_delete ps d w) = due w \<union> (if d = 0 then set ps else {})"
  by (auto simp: schedule_delete_def runs_def writes_def zips_def due_def)

lemma cleanup_all_obs [simp]:
  "runs (cleanup_all e tmp w) = runs w"
  "disk (cleanup_all e tmp w) = disk w"
  "writes (cleanup_all e tmp w) = writes w"
  "zips (cleanup_all e tmp w) = zips w"
  "due (cleanup_all e tmp w) = due w \<union> {f \<in> set tmp. path_exists e w f}"
  by (auto simp: cleanup_all_def)

lemma run_obs [simp]:
  "fst (run e cmd out w) = subprocess_run e cmd"
  "runs (snd (run e cmd out w)) = runs w @ [cmd]"
  "writes (snd (run e cmd out w)) = writes w"
  "zips (snd (run e cmd out w)) = zips w"
  "due (snd (run e cmd out w)) = due w"
  "disk (snd (run e cmd None w)) = disk w"
  "disk (snd (run e cmd (Some p) w)) = (if leaves_file e p then insert p (disk w) else disk w)"
  by (auto simp: run_def runs_def writes_def zips_def due_def)

lemma finally5_obs [simp]:
  "runs (finally5 e l c w) = runs w"
  "disk (finally5 e l c w) = disk w"
  "writes (finally5 e l c w) = writes w"
  "zips (finally5 e l c w) = zips w"
  by (auto simp: finally5_def)

lemma save_upload_obs [simp]:
  "runs (snd (save_upload e p w)) = runs w"
  "zips (snd (save_upload e p w)) = zips w"
  "due (snd (save_upload e p w)) = due w"
  "writes (snd (save_upload e p w)) = writes w @ [p]"
  by (auto simp: save_upload_def runs_def writes_def zips_def due_def split: option.splits)

lemma copy2_obs [simp]:
  "runs (snd (copy2 e s d w)) = runs w"
  "zips (snd (copy2 e s d w)) = zips w"
  "due (snd (copy2 e s d w)) = due w"
  by (auto simp: copy2_def runs_def writes_def zips_def due_def split: option.splits)

lemma remux_to_mov_runs [simp]:
  "runs (snd (remux_to_mov e s out w)) = runs w @ [remux_cmd s out]"
  "zips (snd (remux_to_mov e s out w)) = zips w"
  "due (snd (remux_to_mov e s out w)) = due w"
  "snd (remux_to_mov e s out w) = snd (run e (remux_cmd s out) (Some out) w)"
  by (simp_all add: remux_to_mov_def Let_def split_beta split: proc.splits)

lemma run_exiftool_obs [simp]:
  "snd (run_exiftool e cmd t w) = snd (run e cmd None w)"
  by (simp add: run_exiftool_def Let_def split_beta split: proc.splits)

lemma step4_runs: "runs (snd (step4_save e l w)) = runs w"
  by (simp add: step4_save_def split_beta split: sum.splits)

lemma copy_photo_runs: "runs (snd (copy_photo e l c tmp w)) = runs w"
  by (simp add: copy_photo_def split_beta split: sum.splits)

lemma step5_runs: "runs (snd (step5_photo e l w)) = runs w @ step5_runs e l"
  by (simp add: step5_photo_def step5_runs_def Let_def split_beta copy_photo_runs split: proc.splits)

lemma step6_runs:
  "runs (snd (step6_remux e l tmp w)) = runs w @ [remux_cmd (src_video l) (out_video l)]"
  by (simp add: step6_remux_def split_beta split: sum.splits pyexn.splits)

lemma inject_handler_runs: "runs (snd (inject_handler e t tmp res)) = runs (snd res)"
  by (simp add: inject_handler_def split_beta split: sum.splits pyexn.splits)

lemma step7_runs: "runs (snd (step7_image e l tmp w)) = runs w @ [image_cmd_of l]"
  by (simp add: step7_image_def inject_handler_runs inject_image_metadata_def image_cmd_of_def)

lemma step8_runs: "runs (snd (step8_video e l tmp w)) = runs w @ [video_cmd_of l]"
  by (simp add: step8_video_def inject_handler_runs inject_video_metadata_def video_cmd_of_def)

lemma step9_runs: "runs (snd (step9_package e l tmp w)) = runs w"
  by (simp add: step9_package_def Let_def split: option.splits)

lemma live_pipeline_cases:
  assumes "live_pipeline e l w = (r, w')"
  obtains
    (save) "step4_save e l w = (Inl r, w')"
  | (photo) w4 where "step4_save e l w = (Inr (), w4)" "step5_photo e l w4 = (Inl r, w')"
  | (remux) w4 w5 tmp where "step4_save e l w = (Inr (), w4)"
      "step5_photo e l w4 = (Inr tmp, w5)" "step6_remux e l tmp w5 = (Inl r, w')"
  | (image) w4 w5 w6 tmp where "step4_save e l w = (Inr (), w4)"
      "step5_photo e l w4 = (Inr tmp, w5)" "step6_remux e l tmp w5 = (Inr (), w6)"
      "step7_image e l tmp w6 = (Inl r, w')"
  | (video) w4 w5 w6 w7 tmp where "step4_save e l w = (Inr (), w4)"
      "step5_photo e l w4 = (Inr tmp, w5)" "step6_remux e l tmp w5 = (Inr (), w6)"
      "step7_image e l tmp w6 = (Inr (), w7)" "step8_video e l tmp w7 = (Inl r, w')"
  | (package) w4 w5 w6 w7 w8 tmp where "step4_save e l w = (Inr (), w4)"
      "step5_photo e l w4 = (Inr tmp, w5)" "step6_remux e l tmp w5 = (Inr (), w6)"
      "step7_image e l tmp w6 = (Inr (), w7)" "step8_video e l tmp w7 = (Inr (), w8)"
      "step9_package e l tmp w8 = (r, w')"
  using assms unfolding live_pipeline_def
  by (auto split: prod.splits sum.splits)

section \<open>The ways through the view of the pairing service\<close>

lemma w_init_obs [simp]:
  "runs (w_init d0) = []" "due (w_init d0) = {}" "writes (w_init d0) = []"
  "zips (w_init d0) = []" "disk (w_init d0) = d0" "trace (w_init d0) = []"
  by (simp_all add: w_init_def runs_def due_def writes_def zips_def)

lemma missing_params_empty:
  "missing_params [(k1, v1), (k2, v2), (k3, v3), (k4, v4)] = [] \<longleftrightarrow>
     v1 \<noteq> [] \<and> v2 \<noteq> [] \<and> v3 \<noteq> [] \<and> v4 \<noteq> []"
  "missing_params [(k1, v1), (k2, v2), (k3, v3)] = [] \<longleftrightarrow>
     v1 \<noteq> [] \<and> v2 \<noteq> [] \<and> v3 \<noteq> []"
  by (auto simp: missing_params_def)

lemma process_live_cases:
  assumes "process_live e req d0 = (r, w)"
  obtains
    (rejected) msg where "r = Json msg 400" "w = w_init d0"
  | (index_error) photo_filename video_filename where
      "files req ''photo'' = Some photo_filename" "files req ''video'' = Some video_filename"
      "photo_filename \<noteq> []" "video_filename \<noteq> []"
      "allowed_image photo_filename" "allowed_video video_filename"
      "py_strip (form_get req ''make'' []) \<noteq> []"
      "py_strip (form_get req ''model'' []) \<noteq> []"
      "py_strip (form_get req ''date'' []) \<noteq> []"
      "py_upper (py_strip (form_get req ''asset_id'' [])) \<noteq> []"
      "r = Unhandled IndexError" "w = w_init d0"
  | (accepted) photo_filename video_filename l where
      "files req ''photo'' = Some photo_filename" "files req ''video'' = Some video_filename"
      "photo_filename \<noteq> []" "video_filename \<noteq> []"
      "allowed_image photo_filename" "allowed_video video_filename"
      "py_strip (form_get req ''make'' '''') \<noteq> []"
      "py_strip (form_get req ''model'' '''') \<noteq> []"
      "py_strip (form_get req ''date'' '''') \<noteq> []"
      "py_upper (py_strip (form_get req ''asset_id'' '''')) \<noteq> []"
      "live_locals e req photo_filename video_filename
         (py_strip (form_get req ''make'' '''')) (py_strip (form_get req ''model'' ''''))
         (py_strip (form_get req ''date'' ''''))
         (py_upper (py_strip (form_get req ''asset_id'' ''''))) = Some l"
      "live_pipeline e l (w_init d0) = (r, w)"
proof -
  let ?mk = "py_strip (form_get req ''make'' '''')"
  let ?md = "py_strip (form_get req ''model'' '''')"
  let ?dt = "py_strip (form_get req ''date'' '''')"
  let ?aid = "py_upper (py_strip (form_get req ''asset_id'' ''''))"
  let ?missing = "missing_params
     [(''make'', ?mk), (''model'', ?md), (''date'', ?dt), (''asset_id'', ?aid)]"
  show thesis
  proof (cases "files req ''photo''")
    case None
    with assms have "r = Json txt_need_photo_video 400" "w = w_init d0"
      by (simp_all add: process_live_def)
    then show thesis by (rule rejected)
  next
    case photo: (Some pfn)
    show thesis
    proof (cases "files req ''video''")
      case None
      with assms photo have "r = Json txt_need_photo_video 400" "w = w_init d0"
        by (simp_all add: process_live_def)
      then show thesis by (rule rejected)
    next
      case video: (Some vfn)
      have eq: "process_live e req d0 =
        (if pfn = [] \<or> vfn = [] then (Json txt_empty_filename 400, w_init d0)
         else if \<not> allowed_image pfn then (Json txt_image_ext 400, w_init d0)
         else if \<not> allowed_video vfn then (Json txt_video_ext 400, w_init d0)
         else if ?missing \<noteq> []
              then (Json (txt_missing_params @ py_join '', '' ?missing) 400, w_init d0)
         else case live_locals e req pfn vfn ?mk ?md ?dt ?aid of
                None \<Rightarrow> (Unhandled IndexError, w_init d0)
              | Some l \<Rightarrow> live_pipeline e l (w_init d0))"
        by (simp add: process_live_def Let_def photo video)
      consider (empty) "pfn = [] \<or> vfn = []"
        | (image) "pfn \<noteq> []" "vfn \<noteq> []" "\<not> allowed_image pfn"
        | (video) "pfn \<noteq> []" "vfn \<noteq> []" "allowed_image pfn" "\<not> allowed_video vfn"
        | (missing) "pfn \<noteq> []" "vfn \<noteq> []" "allowed_image pfn" "allowed_video vfn"
            "?missing \<noteq> []"
        | (complete) "pfn \<noteq> []" "vfn \<noteq> []" "allowed_image pfn" "allowed_video vfn"
            "?missing = []"
        by blast
      then show thesis
      proof cases
        case empty
        with assms eq have "r = Json txt_empty_filename 400" "w = w_init d0" by simp_all
        then show thesis by (rule rejected)
      next
        case image
        with assms eq have "r = Json txt_image_ext 400" "w = w_init d0" by simp_all
        then show thesis by (rule rejected)
      next
        case video
        with assms eq have "r = Json txt_video_ext 400" "w = w_init d0" by simp_all
        then show thesis by (rule rejected)
      next
        case missing
        with assms eq have "r = Json (txt_missing_params @ py_join '', '' ?missing) 400"
          "w = w_init d0" by simp_all
        then show thesis by (rule rejected)
      next
        case complete
        from complete(5) have nonempty: "?mk \<noteq> []" "?md \<noteq> []" "?dt \<noteq> []" "?aid \<noteq> []"
          by (simp_all add: missing_params_empty)
        show thesis
        proof (cases "live_locals e req pfn vfn ?mk ?md ?dt ?aid")
          case None
          with assms eq complete have "r = Unhandled IndexError" "w = w_init d0" by simp_all
          with photo video complete(1-4) nonempty show thesis by (rule index_error)
        next
          case (Some l)
          with assms eq complete have "live_pipeline e l (w_init d0) = (r, w)" by simp
          with photo video complete(1-4) nonempty Some show thesis by (rule accepted)
        qed
      qed
    qed
  qed
qed

lemma live_locals_Some:
  assumes "live_locals e req pfn vfn mk md dt aid = Some l"
  obtains photo_ext video_ext where
    "secure_ext e pfn = Some photo_ext" "secure_ext e vfn = Some video_ext"
    "l = Live mk md dt aid
          (py_strip (form_get req ''aperture'' ''1.78''))
          (py_strip (form_get req ''focal'' ''24''))
          (py_strip (form_get req ''focal35'' ''24''))
          (py_strip (form_get req ''iso'' ''100''))
          (py_strip (form_get req ''lens'' (md @ txt_rear_camera)))
          (py_strip (form_get req ''width'' ''4032''))
          (py_strip (form_get req ''height'' ''3024''))
          (uuid4_hex e) photo_ext
          (upload_path e (''src_photo_'' @ uuid4_hex e @ ''.'' @ photo_ext))
          (upload_path e (''src_video_'' @ uuid4_hex e @ ''.'' @ video_ext))
          (upload_path e (''out_photo_'' @ uuid4_hex e @ ''.jpg''))
          (upload_path e (''out_video_'' @ uuid4_hex e @ ''.mov''))
          (upload_path e (''live_'' @ uuid4_hex e @ ''.zip''))"
  using assms unfolding live_locals_def Let_def
  by (auto split: option.splits)

section \<open>What a run of the pairing pipeline leaves behind\<close>

lemma step4_status: "step4_save e l w = (Inl r, w') \<Longrightarrow> status r = 500"
  by (auto simp: step4_save_def split: prod.splits sum.splits)

lemma copy_photo_status: "copy_photo e l c tmp w = (Inl r, w') \<Longrightarrow> status r = 500"
  by (auto simp: copy_photo_def split: prod.splits sum.splits)

lemma step5_status: "step5_photo e l w = (Inl r, w') \<Longrightarrow> status r = 500"
  by (auto simp: step5_photo_def Let_def split_beta dest: copy_photo_status
      split: proc.splits if_splits)

lemma step6_status: "step6_remux e l tmp w = (Inl r, w') \<Longrightarrow> status r = 500"
  by (auto simp: step6_remux_def split: prod.splits sum.splits pyexn.splits)

lemma inject_handler_status: "inject_handler e t tmp res = (Inl r, w') \<Longrightarrow> status r = 500"
  by (auto simp: inject_handler_def split: prod.splits sum.splits pyexn.splits)

lemma step7_status: "step7_image e l tmp w = (Inl r, w') \<Longrightarrow> status r = 500"
  by (simp add: step7_image_def inject_handler_status)

lemma step8_status: "step8_video e l tmp w = (Inl r, w') \<Longrightarrow> status r = 500"
  by (simp add: step8_video_def inject_handler_status)

lemma step9_result:
  assumes "step9_package e l tmp w = (r, w')"
  shows "status r = 500 \<or>
    (r = SendFile (out_zip l) ''application/zip'' (''LivePhoto_'' @ take 8 (uid_l l) @ ''.zip'') \<and>
     zips w' = zips w @ [(out_zip l, ZIP_STORED,
        [(''IMG_LIVE.JPG'', out_photo l), (''IMG_LIVE.MOV'', out_video l)])])"
  using assms by (auto simp: step9_package_def Let_def split: option.splits)

lemma step4_zips: "zips (snd (step4_save e l w)) = zips w"
  by (simp add: step4_save_def split_beta split: sum.splits)

lemma copy_photo_zips: "zips (snd (copy_photo e l c tmp w)) = zips w"
  by (simp add: copy_photo_def split_beta split: sum.splits)

lemma step5_zips: "zips (snd (step5_photo e l w)) = zips w"
  by (simp add: step5_photo_def Let_def split_beta copy_photo_zips split: proc.splits)

lemma step6_zips: "zips (snd (step6_remux e l tmp w)) = zips w"
  by (simp add: step6_remux_def split_beta split: sum.splits pyexn.splits)

lemma inject_handler_zips: "zips (snd (inject_handler e t tmp res)) = zips (snd res)"
  by (simp add: inject_handler_def split_beta split: sum.splits pyexn.splits)

lemma step7_zips: "zips (snd (step7_image e l tmp w)) = zips w"
  by (simp add: step7_image_def inject_handler_zips inject_image_metadata_def)

lemma step8_zips: "zips (snd (step8_video e l tmp w)) = zips w"
  by (simp add: step8_video_def inject_handler_zips inject_video_metadata_def)

lemma not_exif [simp]:
  "\<not> is_exiftool (conv_cmd s c)"
  "\<not> is_exiftool (remux_cmd s out)"
  "is_exiftool (image_cmd_of l)"
  "is_exiftool (video_cmd_of l)"
  by (simp_all add: is_exiftool_def conv_cmd_def remux_cmd_def image_cmd_of_def video_cmd_of_def
      inject_image_metadata_cmd_def inject_video_metadata_cmd_def)

lemma exif_step5_runs [simp]: "filter is_exiftool (step5_runs e l) = []"
  by (simp add: step5_runs_def)

text \<open>
  What a run of steps 4 to 11 leaves behind: the external commands, and with a status of
  200 the attachment and the archive.
\<close>

lemma live_pipeline_effects:
  assumes "live_pipeline e l w = (r, w')"
  shows "(status r = 500 \<and>
          (runs w' = runs w \<or>
           runs w' = runs w @ step5_runs e l \<or>
           runs w' = runs w @ step5_runs e l @ [remux_cmd (src_video l) (out_video l)] \<or>
           runs w' = runs w @ step5_runs e l @
             [remux_cmd (src_video l) (out_video l), image_cmd_of l] \<or>
           runs w' = runs w @ step5_runs e l @
             [remux_cmd (src_video l) (out_video l), image_cmd_of l, video_cmd_of l])) \<or>
         (r = SendFile (out_zip l) ''application/zip''
                (''LivePhoto_'' @ take 8 (uid_l l) @ ''.zip'') \<and>
          runs w' = runs w @ step5_runs e l @
             [remux_cmd (src_video l) (out_video l), image_cmd_of l, video_cmd_of l] \<and>
          zips w' = zips w @ [(out_zip l, ZIP_STORED,
             [(''IMG_LIVE.JPG'', out_photo l), (''IMG_LIVE.MOV'', out_video l)])])"
  using assms
proof (cases rule: live_pipeline_cases)
  case save
  then show ?thesis using step4_runs [of e l w] step4_status by fastforce
next
  case (photo w4)
  then show ?thesis
    using step4_runs [of e l w] step5_runs [of e l w4] step5_status by fastforce
next
  case (remux w4 w5 tmp)
  then show ?thesis
    using step4_runs [of e l w] step5_runs [of e l w4] step6_runs [of e l tmp w5] step6_status
    by fastforce
next
  case (image w4 w5 w6 tmp)
  then show ?thesis
    using step4_runs [of e l w] step5_runs [of e l w4] step6_runs [of e l tmp w5]
      step7_runs [of e l tmp w6] step7_status
    by fastforce
next
  case (video w4 w5 w6 w7 tmp)
  then show ?thesis
    using step4_runs [of e l w] step5_runs [of e l w4] step6_runs [of e l tmp w5]
      step7_runs [of e l tmp w6] step8_runs [of e l tmp w7] step8_status
    by fastforce
next
  case (package w4 w5 w6 w7 w8 tmp)
  have r: "runs w8 = runs w @ step5_runs e l @
      [remux_cmd (src_video l) (out_video l), image_cmd_of l, video_cmd_of l]"
    using package step4_runs [of e l w] step5_runs [of e l w4] step6_runs [of e l tmp w5]
      step7_runs [of e l tmp w6] step8_runs [of e l tmp w7] by simp
  have z: "zips w8 = zips w"
    using package step4_zips [of e l w] step5_zips [of e l w4] step6_zips [of e l tmp w5]
      step7_zips [of e l tmp w6] step8_zips [of e l tmp w7] by simp
  have r': "runs w' = runs w8" using package(6) step9_runs [of e l tmp w8] by simp
  from step9_result [OF package(6)] r z r' show ?thesis by auto
qed

section \<open>The pairing identifier and the archive\<close>

lemma identifier_at_image:
  "identifier_at image_id_tags (image_cmd_of l) (asset_id_l l)"
  by (simp add: identifier_at_def image_id_tags_def image_cmd_of_def tag_value_def plan_image)

lemma identifier_at_video:
  "identifier_at video_id_tags (video_cmd_of l) (asset_id_l l)"
  by (simp add: identifier_at_def video_id_tags_def video_cmd_of_def tag_value_def plan_video)

lemma exif_runs_w_init [simp]: "exif_runs (w_init d0) = []"
  by (simp add: exif_runs_def)

text \<open>The runs of the metadata tool in steps 4 to 11: none, the image's, or both.\<close>

lemma live_pipeline_exif_runs:
  assumes "live_pipeline e l (w_init d0) = (r, w)"
  shows "(status r = 500 \<and> exif_runs w \<in> {[], [image_cmd_of l], [image_cmd_of l, video_cmd_of l]}) \<or>
         (status r = 200 \<and> exif_runs w = [image_cmd_of l, video_cmd_of l])"
  using live_pipeline_effects [OF assms]
  by (elim disjE conjE) (simp_all add: exif_runs_def)



text \<open>
  C4. A pairing request answered with status 200 has written one archive, the file it
  sends: store-only, with the two entries IMG_LIVE.JPG and IMG_LIVE.MOV, in this order,
  taken from the processed image and the processed video.
\<close>

theorem archive_stored_two_entries:
  assumes "process_live e req d0 = (r, w)" and "status r = 200"
  shows "r = SendFile (upload_path e (''live_'' @ uuid4_hex e @ ''.zip'')) ''application/zip''
               (''LivePhoto_'' @ take 8 (uuid4_hex e) @ ''.zip'') \<and>
         zips w = [(upload_path e (''live_'' @ uuid4_hex e @ ''.zip''), ZIP_STORED,
                    [(''IMG_LIVE.JPG'', upload_path e (''out_photo_'' @ uuid4_hex e @ ''.jpg'')),
                     (''IMG_LIVE.MOV'', upload_path e (''out_video_'' @ uuid4_hex e @ ''.mov''))])]"
  using assms(1)
proof (cases rule: process_live_cases)
  case (rejected msg)
  with assms(2) show ?thesis by simp
next
  case (index_error pfn vfn)
  with assms(2) show ?thesis by simp
next
  case (accepted pfn vfn l)
  from accepted(11) have l: "uid_l l = uuid4_hex e"
    "out_zip l = upload_path e (''live_'' @ uuid4_hex e @ ''.zip'')"
    "out_photo l = upload_path e (''out_photo_'' @ uuid4_hex e @ ''.jpg'')"
    "out_video l = upload_path e (''out_video_'' @ uuid4_hex e @ ''.mov'')"
    by (rule live_locals_Some, simp)+
  from live_pipeline_effects [OF accepted(12)] assms(2)
  show ?thesis unfolding l by auto
qed

theorem archive_stored_two_entries_witness:
  "status (fst (process_live env_ok req_jpg {})) = 200 \<and>
   zips (snd (process_live env_ok req_jpg {})) =
     [(''/srv/uploads_dt/live_0123456789abcdef0123456789abcdef.zip'', ZIP_STORED,
       [(''IMG_LIVE.JPG'', ''/srv/uploads_dt/out_photo_0123456789abcdef0123456789abcdef.jpg''),
        (''IMG_LIVE.MOV'', ''/srv/uploads_dt/out_video_0123456789abcdef0123456789abcdef.mov'')])]"
proof -
  have s: "status (fst (process_live env_ok req_jpg {})) = 200" by code_simp
  have p: "upload_path env_ok (''live_'' @ uuid4_hex env_ok @ ''.zip'') =
             ''/srv/uploads_dt/live_0123456789abcdef0123456789abcdef.zip''"
    "upload_path env_ok (''out_photo_'' @ uuid4_hex env_ok @ ''.jpg'') =
             ''/srv/uploads_dt/out_photo_0123456789abcdef0123456789abcdef.jpg''"
    "upload_path env_ok (''out_video_'' @ uuid4_hex env_ok @ ''.mov'') =
             ''/srv/uploads_dt/out_video_0123456789abcdef0123456789abcdef.mov''"
    by (simp_all add: upload_path_def env_ok_def)
  from archive_stored_two_entries [of env_ok req_jpg "{}"
      "fst (process_live env_ok req_jpg {})" "snd (process_live env_ok req_jpg {})"] s
  show ?thesis unfolding p by simp
qed

section \<open>The optional shot parameters\<close>

lemma py_strip_all_space:
  assumes "list_all py_isspace v"
  shows "py_strip v = []"
proof -
  from assms have "dropWhile py_isspace v = []" by (simp add: list_all_iff)
  then show ?thesis by (simp only: py_strip_def rev.simps dropWhile.simps)
qed

lemma last_dropWhile: "dropWhile P xs \<noteq> [] \<Longrightarrow> last (dropWhile P xs) = last xs"
  by (metis last_appendR takeWhile_dropWhile_id)

lemma hd_py_strip:
  assumes "py_strip s \<noteq> []"
  shows "\<not> py_isspace (hd (py_strip s))"
proof -
  let ?a = "dropWhile py_isspace s"
  let ?b = "dropWhile py_isspace (rev ?a)"
  from assms have b: "?b \<noteq> []" by (simp add: py_strip_def)
  have "?a = [] \<Longrightarrow> ?b = []" by (simp only: rev.simps dropWhile.simps)
  with b have a: "?a \<noteq> []" by blast
  have "hd (py_strip s) = last ?b" using b by (simp add: py_strip_def hd_rev)
  also have "\<dots> = last (rev ?a)" using b by (rule last_dropWhile)
  also have "\<dots> = hd ?a" using a by (simp add: last_rev)
  finally show ?thesis using a hd_dropWhile [of py_isspace s] by simp
qed

lemma py_strip_id:
  assumes "s \<noteq> []" "\<not> py_isspace (hd s)" "\<not> py_isspace (last s)"
  shows "py_strip s = s"
proof -
  from assms(1,2) have "dropWhile py_isspace s = s" by (cases s) simp_all
  moreover from assms(1,3) have "dropWhile py_isspace (rev s) = rev s"
    by (cases "rev s") (simp_all add: last_rev [symmetric] del: rev_is_Nil_conv)
  ultimately show ?thesis by (simp add: py_strip_def)
qed

lemma py_strip_rear_camera:
  assumes "py_strip m \<noteq> []"
  shows "py_strip (py_strip m @ txt_rear_camera) = py_strip m @ txt_rear_camera"
proof (rule py_strip_id)
  show "py_strip m @ txt_rear_camera \<noteq> []" using assms by simp
  show "\<not> py_isspace (hd (py_strip m @ txt_rear_camera))"
    using assms hd_py_strip [of m] by simp
  show "\<not> py_isspace (last (py_strip m @ txt_rear_camera))"
    by (simp add: txt_rear_camera_def py_isspace_def)
qed

lemma py_strip_defaults:
  "py_strip ''1.78'' = ''1.78''" "py_strip ''24'' = ''24''" "py_strip ''100'' = ''100''"
  "py_strip ''4032'' = ''4032''" "py_strip ''3024'' = ''3024''"
  by (simp_all add: py_strip_def py_isspace_def)

lemma image_cmd_values:
  "tag_value (image_cmd_of l) ''FNumber'' = Some (aperture_l l)"
  "tag_value (image_cmd_of l) ''FocalLength'' = Some (focal_l l)"
  "tag_value (image_cmd_of l) ''FocalLengthIn35mmFormat'' = Some (focal35_l l)"
  "tag_value (image_cmd_of l) ''ISO'' = Some (iso_l l)"
  "tag_value (image_cmd_of l) ''LensModel'' = Some (lens_l l)"
  "tag_value (image_cmd_of l) ''ExifImageWidth'' = Some (width_l l)"
  "tag_value (image_cmd_of l) ''ExifImageHeight'' = Some (height_l l)"
  by (simp_all add: image_cmd_of_def tag_value_def plan_image)

lemma image_cmd_file: "last (image_cmd_of l) = out_photo l"
  by (simp add: image_cmd_of_def inject_image_metadata_cmd_def)

text \<open>The first run of the metadata tool in a pairing request is the image injection.\<close>

lemma first_exif_run:
  assumes "process_live e req d0 = (r, w)" and "exif_runs w = ic # rest"
  obtains l pfn vfn where
    "live_locals e req pfn vfn
       (py_strip (form_get req ''make'' '''')) (py_strip (form_get req ''model'' ''''))
       (py_strip (form_get req ''date'' ''''))
       (py_upper (py_strip (form_get req ''asset_id'' ''''))) = Some l"
    "py_strip (form_get req ''model'' '''') \<noteq> []"
    "ic = image_cmd_of l"
  using assms(1)
proof (cases rule: process_live_cases)
  case (rejected msg)
  with assms(2) show ?thesis by simp
next
  case (index_error pfn vfn)
  with assms(2) show ?thesis by simp
next
  case (accepted pfn vfn l)
  from live_pipeline_exif_runs [OF accepted(12)] assms(2) have "ic = image_cmd_of l" by auto
  with accepted(11) accepted(8) show ?thesis by (rule that)
qed






section \<open>Validation\<close>

lemma process_video_cases:
  assumes "process_video e req d0 = (r, w)"
  obtains
    (rejected) msg where "r = Json msg 400" "w = w_init d0"
  | (index_error) filename where
      "files req ''file'' = Some filename" "filename \<noteq> []" "allowed_file filename"
      "py_strip (form_get req ''make'' '''') \<noteq> []"
      "py_strip (form_get req ''model'' '''') \<noteq> []"
      "py_strip (form_get req ''date'' '''') \<noteq> []"
      "r = Unhandled IndexError" "w = w_init d0"
  | (accepted) filename src_ext where
      "files req ''file'' = Some filename" "filename \<noteq> []" "allowed_file filename"
      "py_strip (form_get req ''make'' '''') \<noteq> []"
      "py_strip (form_get req ''model'' '''') \<noteq> []"
      "py_strip (form_get req ''date'' '''') \<noteq> []"
      "secure_ext e filename = Some src_ext"
      "video_pipeline e
         (upload_path e (''src_'' @ uuid4_hex e @ ''.'' @ src_ext))
         (upload_path e (''out_'' @ uuid4_hex e @ ''.mov''))
         (py_strip (form_get req ''make'' '''')) (py_strip (form_get req ''model'' ''''))
         (py_strip (form_get req ''date'' '''')) (w_init d0) = (r, w)"
proof -
  let ?mk = "py_strip (form_get req ''make'' '''')"
  let ?md = "py_strip (form_get req ''model'' '''')"
  let ?dt = "py_strip (form_get req ''date'' '''')"
  let ?missing = "missing_params [(''make'', ?mk), (''model'', ?md), (''date'', ?dt)]"
  show thesis
  proof (cases "files req ''file''")
    case None
    with assms have "r = Json txt_no_file_field 400" "w = w_init d0"
      by (simp_all add: process_video_def)
    then show thesis by (rule rejected)
  next
    case upload: (Some fn)
    have eq: "process_video e req d0 =
      (if fn = [] then (Json txt_no_file_chosen 400, w_init d0)
       else if \<not> allowed_file fn then (Json txt_only_mp4_mov 400, w_init d0)
       else if ?missing \<noteq> []
            then (Json (txt_missing_params @ py_join '', '' ?missing) 400, w_init d0)
       else case secure_ext e fn of
              None \<Rightarrow> (Unhandled IndexError, w_init d0)
            | Some src_ext \<Rightarrow>
                video_pipeline e
                  (upload_path e (''src_'' @ uuid4_hex e @ ''.'' @ src_ext))
                  (upload_path e (''out_'' @ uuid4_hex e @ ''.mov''))
                  ?mk ?md ?dt (w_init d0))"
      by (simp add: process_video_def Let_def upload)
    consider (empty) "fn = []"
      | (ext) "fn \<noteq> []" "\<not> allowed_file fn"
      | (missing) "fn \<noteq> []" "allowed_file fn" "?missing \<noteq> []"
      | (complete) "fn \<noteq> []" "allowed_file fn" "?missing = []"
      by blast
    then show thesis
    proof cases
      case empty
      with assms eq have "r = Json txt_no_file_chosen 400" "w = w_init d0" by simp_all
      then show thesis by (rule rejected)
    next
      case ext
      with assms eq have "r = Json txt_only_mp4_mov 400" "w = w_init d0" by simp_all
      then show thesis by (rule rejected)
    next
      case missing
      with assms eq have "r = Json (txt_missing_params @ py_join '', '' ?missing) 400"
        "w = w_init d0" by simp_all
      then show thesis by (rule rejected)
    next
      case complete
      from complete(3) have nonempty: "?mk \<noteq> []" "?md \<noteq> []" "?dt \<noteq> []"
        by (simp_all add: missing_params_empty)
      show thesis
      proof (cases "secure_ext e fn")
        case None
        with assms eq complete have "r = Unhandled IndexError" "w = w_init d0" by simp_all
        with upload complete(1,2) nonempty show thesis by (rule index_error)
      next
        case (Some src_ext)
        with assms eq complete have "video_pipeline e
           (upload_path e (''src_'' @ uuid4_hex e @ ''.'' @ src_ext))
           (upload_path e (''out_'' @ uuid4_hex e @ ''.mov''))
           ?mk ?md ?dt (w_init d0) = (r, w)" by simp
        with upload complete(1,2) nonempty Some show thesis by (rule accepted)
      qed
    qed
  qed
qed

lemma not_allowed_empty [simp]: "\<not> allowed_ext allowed []"
  by (simp add: allowed_ext_def)

lemma py_upper_empty [simp]: "py_upper s = [] \<longleftrightarrow> s = []"
  by (simp add: py_upper_def)

lemma live_invalid_rejected:
  assumes "live_invalid req" and "process_live e req d0 = (r, w)"
  shows "status r = 400 \<and> trace w = [] \<and> disk w = d0"
  using assms(2)
proof (cases rule: process_live_cases)
  case (rejected msg)
  then show ?thesis by simp
next
  case (index_error pfn vfn)
  with assms(1) show ?thesis by (simp add: live_invalid_def)
next
  case (accepted pfn vfn l)
  with assms(1) show ?thesis by (simp add: live_invalid_def)
qed

lemma video_invalid_rejected:
  assumes "video_invalid req" and "process_video e req d0 = (r, w)"
  shows "status r = 400 \<and> trace w = [] \<and> disk w = d0"
  using assms(2)
proof (cases rule: process_video_cases)
  case (rejected msg)
  then show ?thesis by simp
next
  case (index_error fn)
  with assms(1) show ?thesis by (simp add: video_invalid_def)
next
  case (accepted fn src_ext)
  with assms(1) show ?thesis by (simp add: video_invalid_def)
qed



lemma allowed_ext_after_last_dot:
  assumes "CHR ''.'' \<notin> set ext"
  shows "allowed_ext allowed (stem @ ''.'' @ ext) \<longleftrightarrow> py_lower ext \<in> allowed"
proof -
  have "takeWhile (\<lambda>c. c \<noteq> CHR ''.'') (rev ext @ (CHR ''.'' # rev stem)) =
        rev ext @ takeWhile (\<lambda>c. c \<noteq> CHR ''.'') (CHR ''.'' # rev stem)"
    by (rule takeWhile_append2) (use assms in auto)
  then have "takeWhile (\<lambda>c. c \<noteq> CHR ''.'') (rev ext @ (CHR ''.'' # rev stem)) = rev ext"
    by simp
  then show ?thesis
    by (simp add: allowed_ext_def py_rsplit1_def py_index_def)
qed

lemma allowed_ext_no_dot: "CHR ''.'' \<notin> set filename \<Longrightarrow> \<not> allowed_ext allowed filename"
  by (simp add: allowed_ext_def)

lemma allowed_upper_mov: "allowed_video (stem @ ''.MOV'') \<and> allowed_file (stem @ ''.MOV'')"
  using allowed_ext_after_last_dot [of "''MOV''" ALLOWED_VIDEO_EXT stem]
    allowed_ext_after_last_dot [of "''MOV''" ALLOWED_EXTENSIONS stem]
  by (simp add: allowed_video_def allowed_file_def ALLOWED_VIDEO_EXT_def ALLOWED_EXTENSIONS_def
      py_lower_def lower_char_def)

lemma process_video_no_dot:
  assumes "files req ''file'' = Some filename" "filename \<noteq> []" "CHR ''.'' \<notin> set filename"
  shows "process_video e req d0 = (Json txt_only_mp4_mov 400, w_init d0)"
  using assms allowed_ext_no_dot [of filename ALLOWED_EXTENSIONS]
  by (simp add: process_video_def allowed_file_def)

lemma process_live_no_dot:
  assumes "files req ''photo'' = Some photo_filename" "files req ''video'' = Some video_filename"
    "photo_filename \<noteq> []" "video_filename \<noteq> []"
    "CHR ''.'' \<notin> set photo_filename \<or> CHR ''.'' \<notin> set video_filename"
  shows "process_live e req d0 = (Json txt_image_ext 400, w_init d0) \<or>
         process_live e req d0 = (Json txt_video_ext 400, w_init d0)"
proof (cases "allowed_image photo_filename")
  case False
  with assms(1-4) have "process_live e req d0 = (Json txt_image_ext 400, w_init d0)"
    by (simp add: process_live_def)
  then show ?thesis ..
next
  case True
  then have "CHR ''.'' \<in> set photo_filename"
    using allowed_ext_no_dot [of photo_filename ALLOWED_IMAGE_EXT]
    by (auto simp: allowed_image_def)
  with assms(5) have "\<not> allowed_video video_filename"
    using allowed_ext_no_dot [of video_filename ALLOWED_VIDEO_EXT]
    by (auto simp: allowed_video_def)
  with True assms(1-4) have "process_live e req d0 = (Json txt_video_ext 400, w_init d0)"
    by (simp add: process_live_def)
  then show ?thesis ..
qed

text \<open>
  C10. The three extension checks look only at the text after the last dot of the file
  name, lowercased: a name \<open>stem.ext\<close> (no dot in \<open>ext\<close>) is allowed exactly if the
  lowercased \<open>ext\<close> is in the allowlist, whatever the stem, so that a name ending in .MOV
  passes. A file name without a dot is answered with status 400 and the
  extension message of the endpoint (for the pairing endpoint, the image's or the
  video's), before anything is written.
\<close>

theorem extension_check_after_last_dot:
  "(CHR ''.'' \<notin> set ext \<longrightarrow>
      (allowed_video (stem @ ''.'' @ ext) \<longleftrightarrow> py_lower ext \<in> ALLOWED_VIDEO_EXT) \<and>
      (allowed_image (stem @ ''.'' @ ext) \<longleftrightarrow> py_lower ext \<in> ALLOWED_IMAGE_EXT) \<and>
      (allowed_file (stem @ ''.'' @ ext) \<longleftrightarrow> py_lower ext \<in> ALLOWED_EXTENSIONS)) \<and>
   (allowed_video (stem @ ''.MOV'') \<and> allowed_file (stem @ ''.MOV'')) \<and>
   (files req ''file'' = Some filename \<and> filename \<noteq> [] \<and> CHR ''.'' \<notin> set filename \<longrightarrow>
      process_video e req d0 = (Json txt_only_mp4_mov 400, w_init d0)) \<and>
   (files req ''photo'' = Some photo_filename \<and> files req ''video'' = Some video_filename \<and>
    photo_filename \<noteq> [] \<and> video_filename \<noteq> [] \<and>
    (CHR ''.'' \<notin> set photo_filename \<or> CHR ''.'' \<notin> set video_filename) \<longrightarrow>
      process_live e req d0 = (Json txt_image_ext 400, w_init d0) \<or>
      process_live e req d0 = (Json txt_video_ext 400, w_init d0))"
  using allowed_ext_after_last_dot [of ext _ stem] allowed_upper_mov [of stem]
    process_video_no_dot [of req filename e d0]
    process_live_no_dot [of req photo_filename video_filename e d0]
  unfolding allowed_video_def allowed_image_def allowed_file_def
  by blast

theorem extension_check_after_last_dot_witness:
  "CHR ''.'' \<notin> set ''Mp4'' \<and> allowed_video ''my.clip.Mp4'' \<and> py_lower ''Mp4'' \<in> ALLOWED_VIDEO_EXT \<and>
   \<not> allowed_image ''my.clip.Mp4'' \<and>
   files req_video_no_dot ''file'' = Some ''clip'' \<and>
   process_video env_ok req_video_no_dot {} = (Json txt_only_mp4_mov 400, w_init {}) \<and>
   files req_live_no_dot ''video'' = Some ''clip'' \<and>
   process_live env_ok req_live_no_dot {} = (Json txt_video_ext 400, w_init {})"
proof -
  have a: "CHR ''.'' \<notin> set ''Mp4''" by simp
  have b: "py_lower ''Mp4'' \<in> ALLOWED_VIDEO_EXT" "py_lower ''Mp4'' \<notin> ALLOWED_IMAGE_EXT"
    by (simp_all add: py_lower_def lower_char_def ALLOWED_VIDEO_EXT_def ALLOWED_IMAGE_EXT_def)
  have c: "files req_video_no_dot ''file'' = Some ''clip''"
    "files req_live_no_dot ''photo'' = Some ''IMG_0001.JPG''"
    "files req_live_no_dot ''video'' = Some ''clip''"
    by (simp_all add: req_video_no_dot_def req_live_no_dot_def)
  have d: "process_live env_ok req_live_no_dot {} \<noteq> (Json txt_image_ext 400, w_init {})"
    by code_simp
  from extension_check_after_last_dot
    [of "''Mp4''" "''my.clip''" req_video_no_dot "''clip''" env_ok "{}"]
    extension_check_after_last_dot
    [of _ _ req_live_no_dot _ env_ok "{}" "''IMG_0001.JPG''" "''clip''"] a b c d
  show ?thesis by simp
qed

section \<open>Files on disk and scheduled deletions\<close>

lemma py_last_chars_twice: "py_last_chars 300 (py_last_chars 1000 s) = py_last_chars 300 s"
proof -
  have "length s - (length s - 1000) - 300 + (length s - 1000) = length s - 300" by arith
  then show ?thesis by (simp add: py_last_chars_def)
qed

lemma cleanup_all_covers: "disk w \<inter> set tmp \<subseteq> due (cleanup_all e tmp w)"
  by (auto simp: path_exists_def)

lemma finally5_covers:
  "c \<noteq> out_photo l \<Longrightarrow> c \<in> disk w \<Longrightarrow> c \<in> due (finally5 e l c w)"
  by (auto simp: finally5_def path_exists_def)

lemma finally5_due: "due w \<subseteq> due (finally5 e l c w)"
  by (auto simp: finally5_def)

lemma save_upload_disk: "disk (snd (save_upload e p w)) \<subseteq> insert p (disk w)"
  by (auto simp: save_upload_def split: option.splits)

lemma copy2_disk: "disk (snd (copy2 e s d w)) \<subseteq> insert d (disk w)"
  by (auto simp: copy2_def split: option.splits)

lemma copy2_ok: "copy2 e s d w = (Inr u, w') \<Longrightarrow> s \<in> disk w \<and> s \<in> disk w'"
  by (auto simp: copy2_def split: option.splits if_splits)

lemma step4_disk: "disk (snd (step4_save e l w)) \<subseteq> disk w \<union> set (tmp_files0 l)"
proof -
  have a: "disk (snd (save_upload e (src_photo l) w)) \<subseteq> disk w \<union> set (tmp_files0 l)"
    using save_upload_disk [of e "src_photo l" w] by (auto simp: tmp_files0_def)
  have b: "disk (snd (save_upload e (src_video l) (snd (save_upload e (src_photo l) w))))
      \<subseteq> disk w \<union> set (tmp_files0 l)"
    using save_upload_disk [of e "src_video l" "snd (save_upload e (src_photo l) w)"] a
    by (auto simp: tmp_files0_def)
  show ?thesis using a b
    by (simp add: step4_save_def split_beta split: sum.splits)
qed

lemma copy_photo_ok:
  assumes "copy_photo e l c tmp w = (Inr tmp', w')" and "c \<noteq> out_photo l"
  shows "tmp' = tmp \<and> c \<in> due w' \<and> due w \<subseteq> due w' \<and> disk w' \<subseteq> insert (out_photo l) (disk w)"
proof -
  obtain x w1 where c: "copy2 e c (out_photo l) w = (x, w1)" by (cases "copy2 e c (out_photo l) w")
  with assms(1) obtain u where x: "x = Inr u" and tmp: "tmp' = tmp"
    and w': "w' = finally5 e l c w1"
    by (cases x) (simp_all add: copy_photo_def)
  from c x have "c \<in> disk w1" using copy2_ok [of e c "out_photo l" w u w1] by simp
  with assms(2) have "c \<in> due w'" unfolding w' by (rule finally5_covers)
  moreover have "due w1 = due w" using c copy2_obs(3) [of e c "out_photo l" w] by simp
  then have "due w \<subseteq> due w'" unfolding w' using finally5_due [of w1 e l c] by simp
  moreover have "disk w' \<subseteq> insert (out_photo l) (disk w)"
    unfolding w' using c copy2_disk [of e c "out_photo l" w] by simp
  ultimately show ?thesis using tmp by simp
qed

text \<open>Step 5 without a conversion: only the copy.\<close>

lemma step5_jpeg:
  assumes "photo_ext_l l \<in> {''jpg'', ''jpeg''}"
  shows "step5_photo e l w = copy_photo e l (src_photo l) (tmp_files0 l) w"
  using assms by (simp add: step5_photo_def)

text \<open>
  Step 5 with a conversion that completed: the converted file, if the command left one,
  is scheduled for deletion at once.
\<close>

lemma step5_converted_due:
  assumes ext: "photo_ext_l l \<notin> {''jpg'', ''jpeg''}"
    and run: "subprocess_run e (conv_cmd (src_photo l) (converted_path e l)) =
                Completed returncode out_text stderr"
    and neq: "converted_path e l \<noteq> out_photo l"
    and step: "step5_photo e l w = (x, w')"
    and disk: "converted_path e l \<in> disk w'"
  shows "converted_path e l \<in> due w'"
proof -
  let ?conv = "converted_path e l"
  let ?tmp = "tmp_files0 l @ [?conv]"
  let ?w1 = "snd (run e (conv_cmd (src_photo l) ?conv) (Some ?conv) w)"
  show ?thesis
  proof (cases "returncode = 0")
    case False
    with ext run step have w': "w' = finally5 e l (src_photo l) (cleanup_all e ?tmp ?w1)"
      by (simp add: step5_photo_def Let_def split_beta)
    then have d: "disk w' = disk ?w1" by simp
    from disk d have "?conv \<in> disk ?w1 \<inter> set ?tmp" by simp
    then have "?conv \<in> due (cleanup_all e ?tmp ?w1)"
      using cleanup_all_covers [of ?w1 ?tmp e] by blast
    then show ?thesis unfolding w' using finally5_due by blast
  next
    case True
    with ext run step
    have c: "copy_photo e l ?conv ?tmp (schedule_delete [src_photo l] 0 ?w1) = (x, w')"
      by (simp add: step5_photo_def Let_def split_beta)
    show ?thesis
    proof (cases x)
      case (Inr tmp')
      with c neq show ?thesis using copy_photo_ok by blast
    next
      case (Inl resp)
      obtain y w2 where c2: "copy2 e ?conv (out_photo l) (schedule_delete [src_photo l] 0 ?w1)
          = (y, w2)"
        by (cases "copy2 e ?conv (out_photo l) (schedule_delete [src_photo l] 0 ?w1)")
      with c Inl have w': "w' = finally5 e l ?conv w2"
        by (cases y) (simp_all add: copy_photo_def)
      have "?conv \<in> disk w2"
      proof (cases "?conv \<in> disk ?w1")
        case True
        with c2 show ?thesis by (auto simp: copy2_def split: option.splits if_splits)
      next
        case False
        with c2 have "w2 = schedule_delete [src_photo l] 0 ?w1" by (simp add: copy2_def)
        with w' have "disk w' = disk ?w1" by simp
        with disk False show ?thesis by simp
      qed
      with neq show ?thesis unfolding w' by (rule finally5_covers)
    qed
  qed
qed

text \<open>Step 5 gone through with a conversion: the conversion returned 0.\<close>

lemma step5_ok:
  assumes "step5_photo e l w = (Inr tmp, w')"
  shows "set (tmp_files0 l) \<subseteq> set tmp \<and> due w \<subseteq> due w' \<and> disk w' \<subseteq> disk w \<union> set tmp \<and>
         (photo_ext_l l \<notin> {''jpg'', ''jpeg''} \<longrightarrow>
            (\<exists>out_text stderr.
               subprocess_run e (conv_cmd (src_photo l) (converted_path e l)) =
                 Completed 0 out_text stderr) \<and>
            (converted_path e l \<noteq> out_photo l \<longrightarrow> converted_path e l \<in> due w'))"
proof (cases "photo_ext_l l \<in> {''jpg'', ''jpeg''}")
  case True
  with assms have c: "copy_photo e l (src_photo l) (tmp_files0 l) w = (Inr tmp, w')"
    using step5_jpeg [of l e w] by simp
  obtain x w1 where c2: "copy2 e (src_photo l) (out_photo l) w = (x, w1)"
    by (cases "copy2 e (src_photo l) (out_photo l) w")
  with c obtain u where "x = Inr u" and tmp: "tmp = tmp_files0 l"
    and w': "w' = finally5 e l (src_photo l) w1"
    by (cases x) (simp_all add: copy_photo_def)
  have "due w1 = due w" using c2 copy2_obs(3) [of e "src_photo l" "out_photo l" w] by simp
  then have "due w \<subseteq> due w'" unfolding w' using finally5_due [of w1 e l "src_photo l"] by simp
  moreover have "disk w' \<subseteq> disk w \<union> set tmp"
    unfolding w' tmp using c2 copy2_disk [of e "src_photo l" "out_photo l" w]
    by (auto simp: tmp_files0_def)
  ultimately show ?thesis using True tmp by simp
next
  case False
  let ?conv = "converted_path e l"
  let ?tmp = "tmp_files0 l @ [?conv]"
  let ?w1 = "snd (run e (conv_cmd (src_photo l) ?conv) (Some ?conv) w)"
  from False assms obtain out_text stderr where
    run: "subprocess_run e (conv_cmd (src_photo l) ?conv) = Completed 0 out_text stderr"
    and c: "copy_photo e l ?conv ?tmp (schedule_delete [src_photo l] 0 ?w1) = (Inr tmp, w')"
    by (auto simp: step5_photo_def Let_def split_beta split: proc.splits if_splits)
  obtain x w2 where c2: "copy2 e ?conv (out_photo l) (schedule_delete [src_photo l] 0 ?w1)
      = (x, w2)"
    by (cases "copy2 e ?conv (out_photo l) (schedule_delete [src_photo l] 0 ?w1)")
  with c obtain u where x: "x = Inr u" and tmp: "tmp = ?tmp"
    and w': "w' = finally5 e l ?conv w2"
    by (cases x) (simp_all add: copy_photo_def)
  have "due w2 = due (schedule_delete [src_photo l] 0 ?w1)"
    using c2 copy2_obs(3) [of e ?conv "out_photo l" "schedule_delete [src_photo l] 0 ?w1"]
    by simp
  then have due: "due w \<subseteq> due w'"
    unfolding w' using finally5_due [of w2 e l ?conv] by auto
  have "disk w2 \<subseteq> insert (out_photo l) (disk ?w1)"
    using c2 copy2_disk [of e ?conv "out_photo l" "schedule_delete [src_photo l] 0 ?w1"]
    by simp
  then have disk: "disk w' \<subseteq> disk w \<union> set tmp"
    unfolding w' tmp by (auto simp: tmp_files0_def split: if_splits)
  have "?conv \<in> disk w2" using c2 x copy2_ok [of e ?conv "out_photo l" _ u w2] by simp
  then have "?conv \<noteq> out_photo l \<longrightarrow> ?conv \<in> due w'"
    unfolding w' using finally5_covers by blast
  with run due disk tmp show ?thesis by auto
qed

lemma remux_to_mov_eq:
  "remux_to_mov e s out w =
     ((case subprocess_run e (remux_cmd s out) of
         TimedOut captured \<Rightarrow> Inl (TimeoutExpired (remux_cmd s out) ''300'')
       | Completed returncode out_text stderr \<Rightarrow>
           if returncode \<noteq> 0
           then Inl (RuntimeError (txt_remux_failed @ py_last_chars 300 stderr))
           else if out \<in> disk (snd (run e (remux_cmd s out) (Some out) w)) then Inr ()
           else Inl (FileNotFoundError out)),
      snd (run e (remux_cmd s out) (Some out) w))"
  by (simp add: remux_to_mov_def Let_def split_beta py_last_chars_twice split: proc.splits)

lemma run_exiftool_eq:
  "run_exiftool e cmd failure_text w =
     ((case subprocess_run e cmd of
         TimedOut captured \<Rightarrow> Inl (TimeoutExpired cmd ''60'')
       | Completed returncode out_text stderr \<Rightarrow>
           if returncode \<noteq> 0
           then Inl (RuntimeError (failure_text @ py_last_chars 200 stderr))
           else Inr ()),
      snd (run e cmd None w))"
  by (simp add: run_exiftool_def Let_def split_beta split: proc.splits)

lemma step6_ok:
  assumes "step6_remux e l tmp w = (Inr u, w')"
  shows "due w \<subseteq> due w' \<and> disk w' \<subseteq> insert (out_video l) (disk w) \<and>
         \<not> failed (subprocess_run e (remux_cmd (src_video l) (out_video l)))"
  using assms
  by (auto simp: step6_remux_def remux_to_mov_eq failed_def
      split: proc.splits if_splits)

lemma step6_failed:
  assumes "step6_remux e l tmp w = (x, w')"
    and "failed (subprocess_run e (remux_cmd (src_video l) (out_video l)))"
  shows "x = Inl (Json (remux_failure (subprocess_run e (remux_cmd (src_video l) (out_video l)))) 500) \<and>
         disk w' \<subseteq> insert (out_video l) (disk w) \<and> disk w' \<inter> set tmp \<subseteq> due w'"
proof -
  let ?w1 = "snd (run e (remux_cmd (src_video l) (out_video l)) (Some (out_video l)) w)"
  from assms have x: "x = Inl (Json (remux_failure
        (subprocess_run e (remux_cmd (src_video l) (out_video l)))) 500)"
    and w': "w' = schedule_delete [src_video l] 0 (cleanup_all e tmp ?w1)"
    by (auto simp: step6_remux_def remux_to_mov_eq failed_def remux_failure_def
        split: proc.splits if_splits)
  have "disk w' \<inter> set tmp \<subseteq> due w'"
    unfolding w' using cleanup_all_covers [of ?w1 tmp e] by auto
  moreover have "disk w' \<subseteq> insert (out_video l) (disk w)" unfolding w' by auto
  ultimately show ?thesis using x by simp
qed

lemma injection_ok:
  assumes "inject_handler e step_text tmp (run_exiftool e cmd failure_text w) = (Inr u, w')"
  shows "due w' = due w \<and> disk w' = disk w \<and> \<not> failed (subprocess_run e cmd)"
  using assms
  by (auto simp: inject_handler_def run_exiftool_eq failed_def split: proc.splits if_splits)

lemma injection_failed:
  assumes "inject_handler e step_text tmp (run_exiftool e cmd failure_text w) = (x, w')"
    and "failed (subprocess_run e cmd)"
  shows "x = Inl (Json (step_text @ injection_failure e failure_text cmd (subprocess_run e cmd)) 500) \<and>
         disk w' = disk w \<and> disk w' \<inter> set tmp \<subseteq> due w'"
proof -
  let ?w1 = "snd (run e cmd None w)"
  from assms have x: "x = Inl (Json (step_text @
        injection_failure e failure_text cmd (subprocess_run e cmd)) 500)"
    and w': "w' = cleanup_all e tmp ?w1"
    by (auto simp: inject_handler_def run_exiftool_eq failed_def injection_failure_def
        split: proc.splits if_splits)
  have "disk w' \<inter> set tmp \<subseteq> due w'"
    unfolding w' using cleanup_all_covers [of ?w1 tmp e] by auto
  moreover have "disk w' = disk w" unfolding w' by simp
  ultimately show ?thesis using x by simp
qed

lemma step7_ok:
  assumes "step7_image e l tmp w = (Inr u, w')"
  shows "due w' = due w \<and> disk w' = disk w \<and> \<not> failed (subprocess_run e (image_cmd_of l))"
proof -
  from assms have "inject_handler e txt_image_failed tmp
      (run_exiftool e (image_cmd_of l) txt_exif_image_failed w) = (Inr u, w')"
    by (simp add: step7_image_def inject_image_metadata_def image_cmd_of_def)
  then show ?thesis by (rule injection_ok)
qed

lemma step7_failed:
  assumes "step7_image e l tmp w = (x, w')" and "failed (subprocess_run e (image_cmd_of l))"
  shows "x = Inl (Json (txt_image_failed @ injection_failure e txt_exif_image_failed
                   (image_cmd_of l) (subprocess_run e (image_cmd_of l))) 500) \<and>
         disk w' = disk w \<and> disk w' \<inter> set tmp \<subseteq> due w'"
proof -
  from assms(1) have "inject_handler e txt_image_failed tmp
      (run_exiftool e (image_cmd_of l) txt_exif_image_failed w) = (x, w')"
    by (simp add: step7_image_def inject_image_metadata_def image_cmd_of_def)
  then show ?thesis using assms(2) by (rule injection_failed)
qed

lemma step8_ok:
  assumes "step8_video e l tmp w = (Inr u, w')"
  shows "due w' = due w \<and> disk w' = disk w \<and> \<not> failed (subprocess_run e (video_cmd_of l))"
proof -
  from assms have "inject_handler e txt_video_failed tmp
      (run_exiftool e (video_cmd_of l) txt_exif_video_failed w) = (Inr u, w')"
    by (simp add: step8_video_def inject_video_metadata_def video_cmd_of_def)
  then show ?thesis by (rule injection_ok)
qed

lemma step8_failed:
  assumes "step8_video e l tmp w = (x, w')" and "failed (subprocess_run e (video_cmd_of l))"
  shows "x = Inl (Json (txt_video_failed @ injection_failure e txt_exif_video_failed
                   (video_cmd_of l) (subprocess_run e (video_cmd_of l))) 500) \<and>
         disk w' = disk w \<and> disk w' \<inter> set tmp \<subseteq> due w'"
proof -
  from assms(1) have "inject_handler e txt_video_failed tmp
      (run_exiftool e (video_cmd_of l) txt_exif_video_failed w) = (x, w')"
    by (simp add: step8_video_def inject_video_metadata_def video_cmd_of_def)
  then show ?thesis using assms(2) by (rule injection_failed)
qed

lemma is_remux_simps [simp]:
  "is_remux (remux_cmd s out)" "\<not> is_remux (conv_cmd s c)"
  "\<not> is_remux (image_cmd_of l)" "\<not> is_remux (video_cmd_of l)"
  by (simp_all add: is_remux_def remux_cmd_def conv_cmd_def image_cmd_of_def video_cmd_of_def
      inject_image_metadata_cmd_def inject_video_metadata_cmd_def)

lemma step6_due: "due w \<subseteq> due (snd (step6_remux e l tmp w))"
  by (auto simp: step6_remux_def remux_to_mov_eq split: proc.splits)

lemma inject_handler_due: "due (snd res) \<subseteq> due (snd (inject_handler e t tmp res))"
  by (auto simp: inject_handler_def split_beta split: sum.splits pyexn.splits)

lemma step7_due: "due w \<subseteq> due (snd (step7_image e l tmp w))"
  using inject_handler_due [of "run_exiftool e (image_cmd_of l) txt_exif_image_failed w"
      e txt_image_failed tmp]
  by (simp add: step7_image_def inject_image_metadata_def image_cmd_of_def)

lemma step8_due: "due w \<subseteq> due (snd (step8_video e l tmp w))"
  using inject_handler_due [of "run_exiftool e (video_cmd_of l) txt_exif_video_failed w"
      e txt_video_failed tmp]
  by (simp add: step8_video_def inject_video_metadata_def video_cmd_of_def)

lemma step9_due: "due w \<subseteq> due (snd (step9_package e l tmp w))"
  by (auto simp: step9_package_def Let_def split: option.splits)

text \<open>The files on disk when steps 4 to 6 are done: those of before and temporary ones.\<close>

lemma steps_4_to_6_disk:
  assumes "step4_save e l w = (Inr u, w4)" and "step5_photo e l w4 = (Inr tmp, w5)"
    and "disk w6 \<subseteq> insert (out_video l) (disk w5)"
  shows "disk w6 \<subseteq> disk w \<union> set tmp"
proof -
  from assms(1) have "disk w4 \<subseteq> disk w \<union> set (tmp_files0 l)"
    using step4_disk [of e l w] by simp
  moreover from step5_ok [OF assms(2)]
  have "set (tmp_files0 l) \<subseteq> set tmp" "disk w5 \<subseteq> disk w4 \<union> set tmp" by simp_all
  moreover have "out_video l \<in> set (tmp_files0 l)" by (simp add: tmp_files0_def)
  ultimately show ?thesis using assms(3) by blast
qed

text \<open>
  The pairing pipeline, when the last command it ran is the remux or an injection and
  that command failed.
\<close>

lemma live_pipeline_tool_failure:
  assumes run: "live_pipeline e l (w_init d0) = (r, w)"
    and ne: "runs w \<noteq> []"
    and kind: "is_exiftool (last (runs w)) \<or> is_remux (last (runs w))"
    and f: "failed (subprocess_run e (last (runs w)))"
  shows "disk w - d0 \<subseteq> due w \<and>
    (is_remux (last (runs w)) \<longrightarrow>
       r = Json (remux_failure (subprocess_run e (last (runs w)))) 500) \<and>
    (is_exiftool (last (runs w)) \<longrightarrow>
       r = Json (txt_image_failed @ injection_failure e txt_exif_image_failed
                   (last (runs w)) (subprocess_run e (last (runs w)))) 500 \<or>
       r = Json (txt_video_failed @ injection_failure e txt_exif_video_failed
                   (last (runs w)) (subprocess_run e (last (runs w)))) 500)"
  using run
proof (cases rule: live_pipeline_cases)
  case save
  with ne show ?thesis using step4_runs [of e l "w_init d0"] by simp
next
  case (photo w4)
  then have "runs w = step5_runs e l"
    using step4_runs [of e l "w_init d0"] step5_runs [of e l w4] by simp
  with ne kind show ?thesis by (simp add: step5_runs_def split: if_splits)
next
  case (remux w4 w5 tmp)
  then have last: "last (runs w) = remux_cmd (src_video l) (out_video l)"
    using step6_runs [of e l tmp w5] by simp
  from step6_failed [OF remux(3)] f last
  have r: "r = Json (remux_failure (subprocess_run e (last (runs w)))) 500"
    and d: "disk w \<subseteq> insert (out_video l) (disk w5)" "disk w \<inter> set tmp \<subseteq> due w"
    by auto
  from steps_4_to_6_disk [OF remux(1,2) d(1)] d(2) have "disk w - d0 \<subseteq> due w" by auto
  with r last show ?thesis by simp
next
  case (image w4 w5 w6 tmp)
  then have last: "last (runs w) = image_cmd_of l"
    using step7_runs [of e l tmp w6] by simp
  from step7_failed [OF image(4)] f last
  have r: "r = Json (txt_image_failed @ injection_failure e txt_exif_image_failed
                   (last (runs w)) (subprocess_run e (last (runs w)))) 500"
    and d: "disk w = disk w6" "disk w \<inter> set tmp \<subseteq> due w"
    by auto
  from step6_ok [OF image(3)] have "disk w6 \<subseteq> insert (out_video l) (disk w5)" by simp
  from steps_4_to_6_disk [OF image(1,2) this] d have "disk w - d0 \<subseteq> due w" by auto
  with r last show ?thesis by simp
next
  case (video w4 w5 w6 w7 tmp)
  then have last: "last (runs w) = video_cmd_of l"
    using step8_runs [of e l tmp w7] by simp
  from step8_failed [OF video(5)] f last
  have r: "r = Json (txt_video_failed @ injection_failure e txt_exif_video_failed
                   (last (runs w)) (subprocess_run e (last (runs w)))) 500"
    and d: "disk w = disk w7" "disk w \<inter> set tmp \<subseteq> due w"
    by auto
  from step6_ok [OF video(3)] have "disk w6 \<subseteq> insert (out_video l) (disk w5)" by simp
  moreover from step7_ok [OF video(4)] have "disk w7 = disk w6" by simp
  ultimately have "disk w7 \<subseteq> insert (out_video l) (disk w5)" by simp
  from steps_4_to_6_disk [OF video(1,2) this] d have "disk w - d0 \<subseteq> due w" by auto
  with r last show ?thesis by simp
next
  case (package w4 w5 w6 w7 w8 tmp)
  then have "last (runs w) = video_cmd_of l"
    using step8_runs [of e l tmp w7] step9_runs [of e l tmp w8] by simp
  with f step8_ok [OF package(5)] show ?thesis by simp
qed

lemma is_exiftool_inject_metadata [simp]:
  "is_exiftool (inject_metadata_cmd fp mk md dt)" "\<not> is_remux (inject_metadata_cmd fp mk md dt)"
  by (simp_all add: is_exiftool_def is_remux_def inject_metadata_cmd_def)

lemma save_upload_result:
  "save_upload e p w = (x, w') \<Longrightarrow>
     runs w' = runs w \<and> due w' = due w \<and> writes w' = writes w @ [p] \<and> disk w' \<subseteq> insert p (disk w)"
  using save_upload_obs [of e p w] save_upload_disk [of e p w] by simp

text \<open>
  The video-only pipeline, when the last command it ran failed: the remux, or the
  injection.
\<close>

lemma video_pipeline_tool_failure:
  assumes run: "video_pipeline e src out mk md dt (w_init d0) = (r, w)"
    and ne: "runs w \<noteq> []"
    and f: "failed (subprocess_run e (last (runs w)))"
  shows "set (writes w) \<subseteq> due w \<and>
    (is_remux (last (runs w)) \<longrightarrow>
       r = Json (remux_failure (subprocess_run e (last (runs w)))) 500) \<and>
    (is_exiftool (last (runs w)) \<longrightarrow>
       r = Json (video_injection_failure (subprocess_run e (last (runs w)))) 500 \<and>
       disk w - d0 \<subseteq> due w)"
proof -
  obtain a w1 where s: "save_upload e src (w_init d0) = (a, w1)"
    by (cases "save_upload e src (w_init d0)")
  from save_upload_result [OF s]
  have w1: "runs w1 = []" "due w1 = {}" "writes w1 = [src]" "disk w1 \<subseteq> insert src d0"
    by simp_all
  let ?rc = "remux_cmd src out"
  let ?w2 = "snd (run e ?rc (Some out) w1)"
  let ?ic = "inject_metadata_cmd out mk md dt"
  let ?w3 = "snd (run e ?ic None (schedule_delete [src] 0 ?w2))"
  show ?thesis
  proof (cases a)
    case (Inl x)
    with run s have "w = w1" by (simp add: video_pipeline_def)
    with ne w1 show ?thesis by simp
  next
    case (Inr u)
    show ?thesis
    proof (cases "failed (subprocess_run e ?rc)")
      case True
      with run s Inr have "r = Json (remux_failure (subprocess_run e ?rc)) 500"
        and w: "w = schedule_delete [src] 0 ?w2"
        by (auto simp: video_pipeline_def remux_to_mov_eq failed_def remux_failure_def
            split: proc.splits if_splits)
      then show ?thesis using w1 by simp
    next
      case False
      then obtain out_text stderr where ok: "subprocess_run e ?rc = Completed 0 out_text stderr"
        by (auto simp: failed_def split: proc.splits)
      show ?thesis
      proof (cases "out \<in> disk ?w2")
        case False
        with run s Inr ok have "w = schedule_delete [src] 0 ?w2"
          by (simp add: video_pipeline_def remux_to_mov_eq)
        with w1 have "last (runs w) = ?rc" by simp
        with f ok show ?thesis by (simp add: failed_def)
      next
        case True
        with run s Inr ok have inj:
          "(case inject_metadata e out mk md dt (schedule_delete [src] 0 ?w2) of
              (Inl (RuntimeError msg), w3) \<Rightarrow> (Json msg 500, schedule_delete [out] 0 w3)
            | (Inl (TimeoutExpired cmd t), w3) \<Rightarrow>
                (Json txt_exif_timeout 500, schedule_delete [out] 0 w3)
            | (Inl x, w3) \<Rightarrow> (Unhandled x, w3)
            | (Inr u'', w3) \<Rightarrow>
                (SendFile out ''video/quicktime'' (''processed_'' @ uuid4_hex e @ ''.mov''),
                 schedule_delete [out] CLEANUP_DELAY_SEC w3)) = (r, w)"
          by (simp add: video_pipeline_def remux_to_mov_eq)
        then have rw: "runs w = [?rc, ?ic]"
          using w1
          by (auto simp: inject_metadata_def run_exiftool_eq CLEANUP_DELAY_SEC_def
              split: proc.splits if_splits)
        with f have fi: "failed (subprocess_run e ?ic)" by simp
        with inj have "r = Json (video_injection_failure (subprocess_run e ?ic)) 500"
          and w: "w = schedule_delete [out] 0 ?w3"
          by (auto simp: inject_metadata_def run_exiftool_eq failed_def
              video_injection_failure_def split: proc.splits if_splits)
        then show ?thesis using w1 rw by (auto split: if_splits)
      qed
    qed
  qed
qed

section \<open>The conversion of the still image\<close>

text \<open>Every command of the pairing pipeline but the conversion is a remux or an injection.\<close>

lemma live_pipeline_conversion:
  assumes run: "live_pipeline e l (w_init d0) = (r, w)"
  shows "photo_ext_l l \<in> {''jpg'', ''jpeg''} \<Longrightarrow> conv_cmd s c \<notin> set (runs w)"
    and "photo_ext_l l \<notin> {''jpg'', ''jpeg''} \<Longrightarrow>
           runs w = [] \<or> hd (runs w) = conv_cmd (src_photo l) (converted_path e l)"
proof -
  have n: "conv_cmd s c \<noteq> remux_cmd (src_video l) (out_video l)"
    "conv_cmd s c \<noteq> image_cmd_of l" "conv_cmd s c \<noteq> video_cmd_of l"
    using is_remux_simps(1) [of "src_video l" "out_video l"] is_remux_simps(2) [of s c]
      not_exif(1) [of s c] not_exif(3) [of l] not_exif(4) [of l]
    by metis+
  show "photo_ext_l l \<in> {''jpg'', ''jpeg''} \<Longrightarrow> conv_cmd s c \<notin> set (runs w)"
    using live_pipeline_effects [OF run] n by (auto simp: step5_runs_def)
  show "photo_ext_l l \<notin> {''jpg'', ''jpeg''} \<Longrightarrow>
           runs w = [] \<or> hd (runs w) = conv_cmd (src_photo l) (converted_path e l)"
    using live_pipeline_effects [OF run] by (auto simp: step5_runs_def)
qed

lemma live_pipeline_converted:
  assumes run: "live_pipeline e l (w_init d0) = (r, w)"
    and ext: "photo_ext_l l \<notin> {''jpg'', ''jpeg''}"
    and neq: "converted_path e l \<noteq> out_photo l"
  shows "exif_runs w \<noteq> [] \<Longrightarrow>
           \<exists>out_text stderr. subprocess_run e (conv_cmd (src_photo l) (converted_path e l)) =
              Completed 0 out_text stderr"
    and "runs w \<noteq> [] \<Longrightarrow>
         \<exists>rc out_text stderr. subprocess_run e (conv_cmd (src_photo l) (converted_path e l)) =
              Completed rc out_text stderr \<Longrightarrow>
         converted_path e l \<in> disk w \<Longrightarrow> converted_path e l \<in> due w"
proof -
  let ?conv = "converted_path e l"
  let ?cmd = "conv_cmd (src_photo l) ?conv"
  have "(exif_runs w \<noteq> [] \<longrightarrow> (\<exists>out_text stderr. subprocess_run e ?cmd = Completed 0 out_text stderr))
      \<and> (runs w \<noteq> [] \<longrightarrow>
           (\<exists>rc out_text stderr. subprocess_run e ?cmd = Completed rc out_text stderr) \<longrightarrow>
           ?conv \<in> disk w \<longrightarrow> ?conv \<in> due w)"
    using run
  proof (cases rule: live_pipeline_cases)
    case save
    then show ?thesis using step4_runs [of e l "w_init d0"] by (simp add: exif_runs_def)
  next
    case (photo w4)
    then have "runs w = step5_runs e l"
      using step4_runs [of e l "w_init d0"] step5_runs [of e l w4] by simp
    then have "exif_runs w = []" by (simp add: exif_runs_def)
    moreover have "(\<exists>rc out_text stderr. subprocess_run e ?cmd = Completed rc out_text stderr) \<longrightarrow>
        ?conv \<in> disk w \<longrightarrow> ?conv \<in> due w"
      using step5_converted_due [OF ext _ neq photo(2)] by blast
    ultimately show ?thesis by simp
  next
    case (remux w4 w5 tmp)
    from step5_ok [OF remux(2)] ext neq
    have ok: "\<exists>out_text stderr. subprocess_run e ?cmd = Completed 0 out_text stderr"
      and d: "?conv \<in> due w5" by auto
    from d remux(3) have "?conv \<in> due w" using step6_due [of w5 e l tmp] by auto
    with ok show ?thesis by simp
  next
    case (image w4 w5 w6 tmp)
    from step5_ok [OF image(2)] ext neq
    have ok: "\<exists>out_text stderr. subprocess_run e ?cmd = Completed 0 out_text stderr"
      and d: "?conv \<in> due w5" by auto
    from d image(3,4) have "?conv \<in> due w"
      using step6_due [of w5 e l tmp] step7_due [of w6 e l tmp] by auto
    with ok show ?thesis by simp
  next
    case (video w4 w5 w6 w7 tmp)
    from step5_ok [OF video(2)] ext neq
    have ok: "\<exists>out_text stderr. subprocess_run e ?cmd = Completed 0 out_text stderr"
      and d: "?conv \<in> due w5" by auto
    from d video(3,4,5) have "?conv \<in> due w"
      using step6_due [of w5 e l tmp] step7_due [of w6 e l tmp] step8_due [of w7 e l tmp]
      by auto
    with ok show ?thesis by simp
  next
    case (package w4 w5 w6 w7 w8 tmp)
    from step5_ok [OF package(2)] ext neq
    have ok: "\<exists>out_text stderr. subprocess_run e ?cmd = Completed 0 out_text stderr"
      and d: "?conv \<in> due w5" by auto
    from d package(3,4,5,6) have "?conv \<in> due w"
      using step6_due [of w5 e l tmp] step7_due [of w6 e l tmp] step8_due [of w7 e l tmp]
        step9_due [of w8 e l tmp]
      by auto
    with ok show ?thesis by simp
  qed
  then show "exif_runs w \<noteq> [] \<Longrightarrow>
           \<exists>out_text stderr. subprocess_run e ?cmd = Completed 0 out_text stderr"
    and "runs w \<noteq> [] \<Longrightarrow>
         \<exists>rc out_text stderr. subprocess_run e ?cmd = Completed rc out_text stderr \<Longrightarrow>
         ?conv \<in> disk w \<Longrightarrow> ?conv \<in> due w"
    by blast+
qed

lemma live_locals_paths:
  assumes "live_locals e req pfn vfn mk md dt aid = Some l"
  shows "secure_ext e pfn = Some (photo_ext_l l)"
    and "uid_l l = uuid4_hex e"
    and "src_photo l = upload_path e (''src_photo_'' @ uuid4_hex e @ ''.'' @ photo_ext_l l)"
    and "out_photo l = upload_path e (''out_photo_'' @ uuid4_hex e @ ''.jpg'')"
  using assms by (rule live_locals_Some, simp)+

text \<open>
  C6, as stated: a PNG image would go to the injection without a conversion. The view
  converts every image whose extension is not jpg or jpeg: for a PNG the first command
  of the request is the conversion.
\<close>

theorem png_is_converted_counterexample:
  "files req_png ''photo'' = Some ''IMG_0001.PNG'' \<and>
   allowed_image ''IMG_0001.PNG'' \<and>
   status (fst (process_live env_ok req_png {})) = 200 \<and>
   hd (runs (snd (process_live env_ok req_png {}))) =
     conv_cmd ''/srv/uploads_dt/src_photo_0123456789abcdef0123456789abcdef.png''
       ''/srv/uploads_dt/conv_photo_0123456789abcdef0123456789abcdef.jpg''"
proof -
  have a: "files req_png ''photo'' = Some ''IMG_0001.PNG''" by (simp add: req_png_def)
  have b: "allowed_image ''IMG_0001.PNG''" by code_simp
  have c: "status (fst (process_live env_ok req_png {})) = 200" by code_simp
  have d: "hd (runs (snd (process_live env_ok req_png {}))) =
     conv_cmd ''/srv/uploads_dt/src_photo_0123456789abcdef0123456789abcdef.png''
       ''/srv/uploads_dt/conv_photo_0123456789abcdef0123456789abcdef.jpg''" by code_simp
  from a b c d show ?thesis by simp
qed

text \<open>
  C6, amended. In a pairing request the extension of the secured photo name decides:
  with jpg or jpeg no conversion command is run at all; with any other extension the
  first command of the request, if it runs one, is the conversion of the saved photo
  into a JPEG, no injection is made unless the conversion returned 0, and once the
  conversion has completed, with whatever return code, the converted file, if it is on
  disk, is scheduled for deletion with delay 0.
\<close>

theorem conversion_only_for_non_jpeg:
  assumes "process_live e req d0 = (r, w)"
    and "files req ''photo'' = Some photo_filename"
    and "secure_ext e photo_filename = Some photo_ext"
  shows "(photo_ext \<in> {''jpg'', ''jpeg''} \<longrightarrow> conv_cmd s c \<notin> set (runs w)) \<and>
    (photo_ext \<notin> {''jpg'', ''jpeg''} \<longrightarrow>
       (runs w = [] \<or>
        hd (runs w) = conv_cmd (upload_path e (''src_photo_'' @ uuid4_hex e @ ''.'' @ photo_ext))
                        (upload_path e (''conv_photo_'' @ uuid4_hex e @ ''.jpg''))) \<and>
       (exif_runs w \<noteq> [] \<longrightarrow>
          (\<exists>out_text stderr.
             subprocess_run e
               (conv_cmd (upload_path e (''src_photo_'' @ uuid4_hex e @ ''.'' @ photo_ext))
                  (upload_path e (''conv_photo_'' @ uuid4_hex e @ ''.jpg''))) =
             Completed 0 out_text stderr)) \<and>
       (runs w \<noteq> [] \<and>
        (\<exists>rc out_text stderr.
           subprocess_run e
             (conv_cmd (upload_path e (''src_photo_'' @ uuid4_hex e @ ''.'' @ photo_ext))
                (upload_path e (''conv_photo_'' @ uuid4_hex e @ ''.jpg''))) =
           Completed rc out_text stderr) \<and>
        upload_path e (''conv_photo_'' @ uuid4_hex e @ ''.jpg'') \<in> disk w \<longrightarrow>
          upload_path e (''conv_photo_'' @ uuid4_hex e @ ''.jpg'') \<in> due w))"
  using assms(1)
proof (cases rule: process_live_cases)
  case (rejected msg)
  then show ?thesis by (simp add: exif_runs_def)
next
  case (index_error pfn vfn)
  then show ?thesis by (simp add: exif_runs_def)
next
  case (accepted pfn vfn l)
  from accepted(1) assms(2) have "pfn = photo_filename" by simp
  with live_locals_paths [OF accepted(11)] assms(3)
  have l: "photo_ext_l l = photo_ext"
    "src_photo l = upload_path e (''src_photo_'' @ uuid4_hex e @ ''.'' @ photo_ext)"
    "converted_path e l = upload_path e (''conv_photo_'' @ uuid4_hex e @ ''.jpg'')"
    by (simp_all add: converted_path_def)
  from live_locals_paths(4) [OF accepted(11)]
  have neq: "converted_path e l \<noteq> out_photo l"
    unfolding l by (simp add: upload_path_def)
  from live_pipeline_conversion(1) [OF accepted(12), where s = s and c = c]
    live_pipeline_conversion(2) [OF accepted(12)]
    live_pipeline_converted [OF accepted(12) _ neq]
  show ?thesis unfolding l by blast
qed

theorem conversion_only_for_non_jpeg_witness:
  "secure_ext env_ok ''IMG_0001.JPG'' = Some ''jpg'' \<and>
   conv_cmd ''/srv/uploads_dt/src_photo_0123456789abcdef0123456789abcdef.jpg''
     ''/srv/uploads_dt/conv_photo_0123456789abcdef0123456789abcdef.jpg''
     \<notin> set (runs (snd (process_live env_ok req_jpg {}))) \<and>
   secure_ext env_ok ''IMG_0001.PNG'' = Some ''png'' \<and>
   hd (runs (snd (process_live env_ok req_png {}))) =
     conv_cmd ''/srv/uploads_dt/src_photo_0123456789abcdef0123456789abcdef.png''
       ''/srv/uploads_dt/conv_photo_0123456789abcdef0123456789abcdef.jpg'' \<and>
   ''/srv/uploads_dt/conv_photo_0123456789abcdef0123456789abcdef.jpg''
     \<in> disk (snd (process_live env_ok req_png {})) \<and>
   ''/srv/uploads_dt/conv_photo_0123456789abcdef0123456789abcdef.jpg''
     \<in> due (snd (process_live env_ok req_png {}))"
proof -
  have j: "process_live env_ok req_jpg {} =
      (fst (process_live env_ok req_jpg {}), snd (process_live env_ok req_jpg {}))" by simp
  have jf: "files req_jpg ''photo'' = Some ''IMG_0001.JPG''" by (simp add: req_jpg_def)
  have je: "secure_ext env_ok ''IMG_0001.JPG'' = Some ''jpg''" by code_simp
  have p: "process_live env_ok req_png {} =
      (fst (process_live env_ok req_png {}), snd (process_live env_ok req_png {}))" by simp
  have pf: "files req_png ''photo'' = Some ''IMG_0001.PNG''" by (simp add: req_png_def)
  have pe: "secure_ext env_ok ''IMG_0001.PNG'' = Some ''png''" by code_simp
  have paths:
    "upload_path env_ok (''src_photo_'' @ uuid4_hex env_ok @ ''.'' @ ''png'') =
       ''/srv/uploads_dt/src_photo_0123456789abcdef0123456789abcdef.png''"
    "upload_path env_ok (''conv_photo_'' @ uuid4_hex env_ok @ ''.jpg'') =
       ''/srv/uploads_dt/conv_photo_0123456789abcdef0123456789abcdef.jpg''"
    by (simp_all add: upload_path_def env_ok_def)
  have r: "runs (snd (process_live env_ok req_png {})) \<noteq> []" by code_simp
  have c: "subprocess_run env_ok
      (conv_cmd ''/srv/uploads_dt/src_photo_0123456789abcdef0123456789abcdef.png''
        ''/srv/uploads_dt/conv_photo_0123456789abcdef0123456789abcdef.jpg'') =
      Completed 0 '''' ''''" by (simp add: env_ok_def)
  have d: "''/srv/uploads_dt/conv_photo_0123456789abcdef0123456789abcdef.jpg''
     \<in> disk (snd (process_live env_ok req_png {}))" by code_simp
  from conversion_only_for_non_jpeg [OF j jf je,
      of "''/srv/uploads_dt/src_photo_0123456789abcdef0123456789abcdef.jpg''"
         "''/srv/uploads_dt/conv_photo_0123456789abcdef0123456789abcdef.jpg''"]
  have 1: "conv_cmd ''/srv/uploads_dt/src_photo_0123456789abcdef0123456789abcdef.jpg''
     ''/srv/uploads_dt/conv_photo_0123456789abcdef0123456789abcdef.jpg''
     \<notin> set (runs (snd (process_live env_ok req_jpg {})))" by simp
  from conversion_only_for_non_jpeg [OF p pf pe] r c d
  have 2: "hd (runs (snd (process_live env_ok req_png {}))) =
     conv_cmd ''/srv/uploads_dt/src_photo_0123456789abcdef0123456789abcdef.png''
       ''/srv/uploads_dt/conv_photo_0123456789abcdef0123456789abcdef.jpg''"
    and 3: "''/srv/uploads_dt/conv_photo_0123456789abcdef0123456789abcdef.jpg''
     \<in> due (snd (process_live env_ok req_png {}))"
    unfolding paths by auto
  from je pe 1 2 3 d show ?thesis by simp
qed

section \<open>Failures of the remux and of the injections\<close>


text \<open>
  In the video-only service a failed remux leaves its partly written output behind: the
  view schedules the source only (app.py lines 239-244), where the injection's handlers
  and the pairing service schedule the output too.
\<close>

lemma video_remux_failure_leaves_output:
  "fst (process_video env_remux_fails req_video {}) =
     Json (txt_remux_failed @ ''moov atom not found'') 500 \<and>
   ''/srv/uploads_dt/out_0123456789abcdef0123456789abcdef.mov''
     \<in> disk (snd (process_video env_remux_fails req_video {})) \<and>
   ''/srv/uploads_dt/out_0123456789abcdef0123456789abcdef.mov''
     \<notin> due (snd (process_video env_remux_fails req_video {}))"
  by code_simp

lemma live_tool_failure:
  assumes run: "process_live e req d0 = (r, w)" and ne: "runs w \<noteq> []"
    and kind: "is_exiftool (last (runs w)) \<or> is_remux (last (runs w))"
    and f: "failed (subprocess_run e (last (runs w)))"
  shows "status r = 500 \<and> disk w - d0 \<subseteq> due w \<and>
      (is_remux (last (runs w)) \<longrightarrow>
         r = Json (remux_failure (subprocess_run e (last (runs w)))) 500) \<and>
      (is_exiftool (last (runs w)) \<longrightarrow>
         r = Json (txt_image_failed @ injection_failure e txt_exif_image_failed
                     (last (runs w)) (subprocess_run e (last (runs w)))) 500 \<or>
         r = Json (txt_video_failed @ injection_failure e txt_exif_video_failed
                     (last (runs w)) (subprocess_run e (last (runs w)))) 500)"
proof -
  from run have t: "disk w - d0 \<subseteq> due w \<and>
      (is_remux (last (runs w)) \<longrightarrow>
         r = Json (remux_failure (subprocess_run e (last (runs w)))) 500) \<and>
      (is_exiftool (last (runs w)) \<longrightarrow>
         r = Json (txt_image_failed @ injection_failure e txt_exif_image_failed
                     (last (runs w)) (subprocess_run e (last (runs w)))) 500 \<or>
         r = Json (txt_video_failed @ injection_failure e txt_exif_video_failed
                     (last (runs w)) (subprocess_run e (last (runs w)))) 500)"
  proof (cases rule: process_live_cases)
    case (rejected msg)
    with ne show ?thesis by simp
  next
    case (index_error pfn vfn)
    with ne show ?thesis by simp
  next
    case (accepted pfn vfn l)
    from accepted(12) ne kind f show ?thesis by (rule live_pipeline_tool_failure)
  qed
  with kind have "status r = 500" by auto
  with t show ?thesis by simp
qed

lemma video_tool_failure:
  assumes run: "process_video e req d0 = (r, w)" and ne: "runs w \<noteq> []"
    and kind: "is_exiftool (last (runs w)) \<or> is_remux (last (runs w))"
    and f: "failed (subprocess_run e (last (runs w)))"
  shows "status r = 500 \<and> set (writes w) \<subseteq> due w \<and>
      (is_remux (last (runs w)) \<longrightarrow>
         r = Json (remux_failure (subprocess_run e (last (runs w)))) 500) \<and>
      (is_exiftool (last (runs w)) \<longrightarrow>
         r = Json (video_injection_failure (subprocess_run e (last (runs w)))) 500 \<and>
         disk w - d0 \<subseteq> due w)"
proof -
  from run have t: "set (writes w) \<subseteq> due w \<and>
      (is_remux (last (runs w)) \<longrightarrow>
         r = Json (remux_failure (subprocess_run e (last (runs w)))) 500) \<and>
      (is_exiftool (last (runs w)) \<longrightarrow>
         r = Json (video_injection_failure (subprocess_run e (last (runs w)))) 500 \<and>
         disk w - d0 \<subseteq> due w)"
  proof (cases rule: process_video_cases)
    case (rejected msg)
    with ne show ?thesis by simp
  next
    case (index_error fn)
    with ne show ?thesis by simp
  next
    case (accepted fn src_ext)
    from accepted(8) ne f show ?thesis by (rule video_pipeline_tool_failure)
  qed
  with kind have "status r = 500" by auto
  with t show ?thesis by simp
qed



text \<open>
  In the pairing service a conversion that runs into its timeout is not handled by the
  view (lines 386-403 catch RuntimeError only): the request ends in the handler for 500,
  and neither the converted file nor the saved video is scheduled for deletion.
\<close>

lemma conversion_timeout_leaves_files:
  "fst (process_live env_conv_timeout req_png {}) =
     Unhandled (TimeoutExpired
       (conv_cmd ''/srv/uploads_dt/src_photo_0123456789abcdef0123456789abcdef.png''
          ''/srv/uploads_dt/conv_photo_0123456789abcdef0123456789abcdef.jpg'') ''60'') \<and>
   disk (snd (process_live env_conv_timeout req_png {})) -
     due (snd (process_live env_conv_timeout req_png {})) =
     {''/srv/uploads_dt/conv_photo_0123456789abcdef0123456789abcdef.jpg'',
      ''/srv/uploads_dt/src_video_0123456789abcdef0123456789abcdef.mov''}"
  by code_simp


end
